theory Spec2Isabelle
  imports
    Complex_Main
    "HOL-Library.Sublist"
    "HOL-Library.AList"
    "HOL-Library.Char_ord"
    "HOL-Library.List_Lexorder"
begin

section \<open>Python values used by \<^verbatim>\<open>handler.py\<close>\<close>

text \<open>
  A Python \<^verbatim>\<open>float\<close> is a finite value or one of the three special values. A finite
  value is the rational number that the double stands for. \<^verbatim>\<open>handler.py\<close> compares
  floats with zero and passes them on; where it divides two of them, the quotient is the
  one that Python computes, which the environment gives (see \<^verbatim>\<open>float_div\<close> below).
\<close>

datatype pyfloat = Fin rat | PosInf | NegInf | NaN

text \<open>The comparison \<^verbatim>\<open>x > 0\<close>: false for NaN, true for positive infinity.\<close>

fun float_pos :: "pyfloat \<Rightarrow> bool" where
  "float_pos (Fin r) = (0 < r)"
| "float_pos PosInf = True"
| "float_pos NegInf = False"
| "float_pos NaN = False"

text \<open>
  The exceptions that the modelled code can meet. All of them derive from
  \<^verbatim>\<open>Exception\<close>; \<^verbatim>\<open>CalledProcessError\<close> carries the command line and the exit status.
\<close>

datatype exn =
    CalledProcessError int "string list"
  | KeyError string
  | ValueError
  | TypeError
  | OverflowError
  | ZeroDivisionError
  | FileNotFoundError string
  | FileExistsError string
  | OSError string
  | RuntimeError

subsection \<open>Strings\<close>

text \<open>
  A \<^verbatim>\<open>str\<close> is a list of characters, each character a code point below 256.
  \<^verbatim>\<open>str.isspace\<close> and \<^verbatim>\<open>str.lower\<close> are those of Python on that range.
\<close>

definition py_isspace :: "char \<Rightarrow> bool" where
  "py_isspace c = (let n = (of_char c :: nat) in
     (9 \<le> n \<and> n \<le> 13) \<or> (28 \<le> n \<and> n \<le> 32) \<or> n = 133 \<or> n = 160)"

definition py_lower_char :: "char \<Rightarrow> char" where
  "py_lower_char c = (let n = (of_char c :: nat) in
     if (65 \<le> n \<and> n \<le> 90) \<or> (192 \<le> n \<and> n \<le> 222 \<and> n \<noteq> 215)
     then char_of (n + 32) else c)"

text \<open>\<^verbatim>\<open>s.strip()\<close>: leading and trailing whitespace removed.\<close>

definition strip :: "string \<Rightarrow> string" where
  "strip s = rev (dropWhile py_isspace (rev (dropWhile py_isspace s)))"

text \<open>\<^verbatim>\<open>s.lower()\<close>.\<close>

definition lower :: "string \<Rightarrow> string" where
  "lower s = map py_lower_char s"

text \<open>
  \<^verbatim>\<open>s.replace(old, new)\<close> for a non-empty \<^verbatim>\<open>old\<close>: every occurrence, found from left
  to right without overlap, is replaced. The source calls it with \<^verbatim>\<open>" "\<close> and with
  \<^verbatim>\<open>"frame_"\<close> only; for an empty \<^verbatim>\<open>old\<close> the string is returned as it is here.
\<close>

function replace :: "string \<Rightarrow> string \<Rightarrow> string \<Rightarrow> string" where
  "replace old new [] = []"
| "replace old new (c # cs) =
     (if old \<noteq> [] \<and> prefix old (c # cs)
      then new @ replace old new (drop (length old) (c # cs))
      else c # replace old new cs)"
  by pat_completeness auto
termination
  by (relation "measure (\<lambda>(old, new, s). length s)") (auto simp: neq_Nil_conv)

text \<open>\<^verbatim>\<open>s.startswith(p)\<close> and \<^verbatim>\<open>s.endswith(p)\<close>.\<close>

definition startswith :: "string \<Rightarrow> string \<Rightarrow> bool" where
  "startswith s p = prefix p s"

definition endswith :: "string \<Rightarrow> string \<Rightarrow> bool" where
  "endswith s p = suffix p s"

subsection \<open>Dictionaries with string keys\<close>

definition dict_contains :: "(string \<times> 'v) list \<Rightarrow> string \<Rightarrow> bool" where
  "dict_contains d k = (map_of d k \<noteq> None)"

text \<open>\<^verbatim>\<open>d[k]\<close> raises \<^verbatim>\<open>KeyError\<close> on a missing key.\<close>

definition dict_getitem :: "(string \<times> 'v) list \<Rightarrow> string \<Rightarrow> exn + 'v" where
  "dict_getitem d k = (case map_of d k of None \<Rightarrow> Inl (KeyError k) | Some v \<Rightarrow> Inr v)"

section \<open>Scale resolution\<close>

definition TARGET_RESOLUTION_SCALE :: "(string \<times> pyfloat) list" where
  "TARGET_RESOLUTION_SCALE =
     [(''1080p'', Fin (3 / 2)), (''2k'', Fin 2), (''1440p'', Fin 2)]"

definition DEFAULT_SCALE :: pyfloat where
  "DEFAULT_SCALE = Fin (3 / 2)"

text \<open>The test \<^verbatim>\<open>scale is not None and scale > 0\<close>.\<close>

definition explicit_scale :: "pyfloat option \<Rightarrow> bool" where
  "explicit_scale scale = (case scale of None \<Rightarrow> False | Some s \<Rightarrow> float_pos s)"

text \<open>
  The key looked up for a target resolution:
  \<^verbatim>\<open>(target_resolution or "").strip().lower().replace(" ", "")\<close>.
\<close>

definition preset_key :: "string \<Rightarrow> string" where
  "preset_key target_resolution = replace '' '' [] (lower (strip target_resolution))"

text \<open>
  The part of \<^verbatim>\<open>resolve_scale\<close> after the test of \<^verbatim>\<open>scale\<close>. A target resolution that
  is \<^verbatim>\<open>None\<close> or empty is falsy and skips the lookup.
\<close>

definition scale_of_target :: "string option \<Rightarrow> exn + pyfloat" where
  "scale_of_target target_resolution =
     (case target_resolution of
        None \<Rightarrow> Inr DEFAULT_SCALE
      | Some t \<Rightarrow>
          if t = [] then Inr DEFAULT_SCALE
          else let key = preset_key t in
            if dict_contains TARGET_RESOLUTION_SCALE key
              then dict_getitem TARGET_RESOLUTION_SCALE key
            else if key = ''2k'' \<or> key = ''1440p'' then Inr (Fin 2)
            else if key = ''1080p'' then Inr (Fin (3 / 2))
            else Inr DEFAULT_SCALE)"

definition resolve_scale :: "pyfloat option \<Rightarrow> string option \<Rightarrow> exn + pyfloat" where
  "resolve_scale scale target_resolution =
     (case scale of
        Some s \<Rightarrow> if float_pos s then Inr s else scale_of_target target_resolution
      | None \<Rightarrow> scale_of_target target_resolution)"

section \<open>The file system and the external programs\<close>

text \<open>
  A path names a file by its text: paths are absolute and normalised, so that
  \<^verbatim>\<open>os.path.abspath\<close> is the identity. A file system lists its paths with what is there,
  a regular file with its content or a directory.
\<close>

datatype node = File string | Dir

type_synonym filesys = "(string \<times> node) list"

text \<open>
  What a finished child process leaves: its exit status, what it printed, and the file
  system after it. Every spawned program is taken to start and to finish; a program that
  cannot be started (another exception of \<^verbatim>\<open>subprocess\<close>) is left out.
\<close>

record proc =
  returncode :: int
  stdout :: string
  stderr :: string
  files_after :: filesys

text \<open>
  Everything \<^verbatim>\<open>handler.py\<close> takes from outside itself: the programs it spawns
  (\<^verbatim>\<open>exec\<close>, for any command line and file system), Python's \<^verbatim>\<open>float()\<close> and
  \<^verbatim>\<open>int()\<close> on a string (\<^verbatim>\<open>None\<close> for a \<^verbatim>\<open>ValueError\<close>), \<^verbatim>\<open>float()\<close> on an
  integer (\<^verbatim>\<open>None\<close> for an \<^verbatim>\<open>OverflowError\<close>), the quotient \<^verbatim>\<open>a / b\<close> of two floats
  when \<^verbatim>\<open>b\<close> is not zero, whether a rename would cross from one mounted file system
  to another, \<^verbatim>\<open>str()\<close> of a float,
  \<^verbatim>\<open>repr()\<close> of a signal number, the two values of \<^verbatim>\<open>uuid.uuid4()\<close> of one request,
  \<^verbatim>\<open>base64.b64encode\<close>, the environment variable \<^verbatim>\<open>REAL_ESRGAN_MODEL\<close> with its
  default, and the image library: loading the weights, decoding a file into an image
  (\<^verbatim>\<open>None\<close> when it cannot be read), enhancing an image, and encoding one.
\<close>

record 'img env =
  exec :: "string list \<Rightarrow> filesys \<Rightarrow> proc"
  py_float :: "string \<Rightarrow> pyfloat option"
  py_int :: "string \<Rightarrow> int option"
  int_to_float :: "int \<Rightarrow> pyfloat option"
  float_div :: "pyfloat \<Rightarrow> pyfloat \<Rightarrow> pyfloat"
  crosses_devices :: "string \<Rightarrow> string \<Rightarrow> bool"
  str_float :: "pyfloat \<Rightarrow> string"
  signal_repr :: "int \<Rightarrow> string option"
  uuid4_hex :: string
  uuid4_str :: string
  b64encode :: "string \<Rightarrow> string"
  DEFAULT_MODEL :: string
  load_weights :: "filesys \<Rightarrow> string \<Rightarrow> exn option"
  decode_image :: "string \<Rightarrow> 'img option"
  enhance :: "string \<Rightarrow> 'img option \<Rightarrow> pyfloat \<Rightarrow> exn + 'img"
  encode_image :: "'img \<Rightarrow> string"

text \<open>
  The state a request runs in: the file system, and a log of the processes spawned so
  far, in order: how each was called, its command line and its exit status.
\<close>

datatype call = CheckCall | CheckOutput

record world =
  files :: filesys
  spawned :: "(call \<times> string list \<times> int) list"

definition spawn :: "'img env \<Rightarrow> call \<Rightarrow> string list \<Rightarrow> world \<Rightarrow> proc \<times> world" where
  "spawn e how cmd w =
     (let p = exec e cmd (files w)
      in (p, \<lparr>files = files_after p, spawned = spawned w @ [(how, cmd, returncode p)]\<rparr>))"

text \<open>\<^verbatim>\<open>run\<close> is \<^verbatim>\<open>subprocess.check_call\<close>: a non-zero exit status raises.\<close>

definition run :: "'img env \<Rightarrow> string list \<Rightarrow> world \<Rightarrow> (exn + unit) \<times> world" where
  "run e cmd w =
     (case spawn e CheckCall cmd w of (p, w') \<Rightarrow>
        if returncode p \<noteq> 0 then (Inl (CalledProcessError (returncode p) cmd), w')
        else (Inr (), w'))"

text \<open>\<^verbatim>\<open>subprocess.check_output\<close> returns what the process printed.\<close>

definition check_output :: "'img env \<Rightarrow> string list \<Rightarrow> world \<Rightarrow> (exn + string) \<times> world" where
  "check_output e cmd w =
     (case spawn e CheckOutput cmd w of (p, w') \<Rightarrow>
        if returncode p \<noteq> 0 then (Inl (CalledProcessError (returncode p) cmd), w')
        else (Inr (stdout p), w'))"

section \<open>The media prober\<close>

text \<open>\<^verbatim>\<open>s.split(sep)\<close> for a separator of one character.\<close>

fun split_on :: "char \<Rightarrow> string \<Rightarrow> string list" where
  "split_on sep [] = [[]]"
| "split_on sep (c # cs) =
     (if c = sep then [] # split_on sep cs
      else (case split_on sep cs of
              [] \<Rightarrow> [[c]]
            | piece # pieces \<Rightarrow> (c # piece) # pieces))"

text \<open>The unpacking \<^verbatim>\<open>a, b = xs\<close> raises \<^verbatim>\<open>ValueError\<close> unless there are two values.\<close>

fun unpack2 :: "'a list \<Rightarrow> exn + 'a \<times> 'a" where
  "unpack2 [a, b] = Inr (a, b)"
| "unpack2 _ = Inl ValueError"

text \<open>
  Float division \<^verbatim>\<open>a / b\<close>: a divisor that is zero raises, whatever the dividend is;
  otherwise the quotient is Python's.
\<close>

definition truediv :: "'img env \<Rightarrow> pyfloat \<Rightarrow> pyfloat \<Rightarrow> exn + pyfloat" where
  "truediv e a b = (if b = Fin 0 then Inl ZeroDivisionError else Inr (float_div e a b))"

definition fps_cmd :: "string \<Rightarrow> string list" where
  "fps_cmd path =
     [''ffprobe'', ''-v'', ''error'', ''-select_streams'', ''v:0'',
      ''-show_entries'', ''stream=r_frame_rate'',
      ''-of'', ''default=noprint_wrappers=1:nokey=1'', path]"

definition size_cmd :: "string \<Rightarrow> string list" where
  "size_cmd path =
     [''ffprobe'', ''-v'', ''error'', ''-select_streams'', ''v:0'',
      ''-show_entries'', ''stream=width,height'', ''-of'', ''csv=p=0'', path]"

text \<open>The expression \<^verbatim>\<open>float(num) / float(den) if den != "0" else 30.0\<close>.\<close>

definition fps_of_pair :: "'img env \<Rightarrow> string \<Rightarrow> string \<Rightarrow> exn + pyfloat" where
  "fps_of_pair e num den =
     (if den \<noteq> ''0'' then
        (case py_float e num of
           None \<Rightarrow> Inl ValueError
         | Some n \<Rightarrow>
             (case py_float e den of
                None \<Rightarrow> Inl ValueError
              | Some d \<Rightarrow> truediv e n d))
      else Inr (Fin 30))"

text \<open>The body of the \<^verbatim>\<open>try\<close> of \<^verbatim>\<open>get_video_fps\<close>.\<close>

definition get_video_fps_try :: "'img env \<Rightarrow> string \<Rightarrow> world \<Rightarrow> (exn + pyfloat) \<times> world" where
  "get_video_fps_try e path w =
     (case check_output e (fps_cmd path) w of
        (Inl x, w') \<Rightarrow> (Inl x, w')
      | (Inr out, w') \<Rightarrow>
          (case unpack2 (split_on (CHR ''/'') (strip out)) of
             Inl x \<Rightarrow> (Inl x, w')
           | Inr (num, den) \<Rightarrow> (fps_of_pair e num den, w')))"

text \<open>\<^verbatim>\<open>except Exception: return 30.0\<close> turns every exception into the default.\<close>

definition get_video_fps :: "'img env \<Rightarrow> string \<Rightarrow> world \<Rightarrow> (exn + pyfloat) \<times> world" where
  "get_video_fps e path w =
     (case get_video_fps_try e path w of
        (Inl x, w') \<Rightarrow> (Inr (Fin 30), w')
      | (Inr v, w') \<Rightarrow> (Inr v, w'))"

definition get_video_size_try ::
  "'img env \<Rightarrow> string \<Rightarrow> world \<Rightarrow> (exn + (int \<times> int) option) \<times> world" where
  "get_video_size_try e path w =
     (case check_output e (size_cmd path) w of
        (Inl x, w') \<Rightarrow> (Inl x, w')
      | (Inr out, w') \<Rightarrow>
          (case unpack2 (split_on (CHR '','') (strip out)) of
             Inl x \<Rightarrow> (Inl x, w')
           | Inr (wd, ht) \<Rightarrow>
               (case py_int e wd of
                  None \<Rightarrow> (Inl ValueError, w')
                | Some a \<Rightarrow>
                    (case py_int e ht of
                       None \<Rightarrow> (Inl ValueError, w')
                     | Some b \<Rightarrow> (Inr (Some (a, b)), w')))))"

definition get_video_size ::
  "'img env \<Rightarrow> string \<Rightarrow> world \<Rightarrow> (exn + (int \<times> int) option) \<times> world" where
  "get_video_size e path w =
     (case get_video_size_try e path w of
        (Inl x, w') \<Rightarrow> (Inr None, w')
      | (Inr v, w') \<Rightarrow> (Inr v, w'))"

section \<open>Files\<close>

text \<open>\<^verbatim>\<open>os.path.join(a, b)\<close> for two components.\<close>

definition path_join :: "string \<Rightarrow> string \<Rightarrow> string" where
  "path_join a b =
     (if startswith b ''/'' then b
      else if a = [] \<or> endswith a ''/'' then a @ b
      else a @ ''/'' @ b)"

definition isfile :: "filesys \<Rightarrow> string \<Rightarrow> bool" where
  "isfile fs p = (case map_of fs p of Some (File c) \<Rightarrow> True | _ \<Rightarrow> False)"

text \<open>
  The test \<^verbatim>\<open>not os.path.isfile(p) or os.path.getsize(p) == 0\<close>; the size is asked of a
  regular file only.
\<close>

definition missing_or_empty :: "filesys \<Rightarrow> string \<Rightarrow> bool" where
  "missing_or_empty fs p = (case map_of fs p of Some (File c) \<Rightarrow> length c = 0 | _ \<Rightarrow> True)"

text \<open>
  \<^verbatim>\<open>os.makedirs(p, exist_ok=True)\<close>, the parent of \<^verbatim>\<open>p\<close> being there (it is
  \<^verbatim>\<open>/tmp\<close>).
\<close>

definition makedirs :: "filesys \<Rightarrow> string \<Rightarrow> exn + filesys" where
  "makedirs fs p =
     (case map_of fs p of
        None \<Rightarrow> Inr (AList.update p Dir fs)
      | Some Dir \<Rightarrow> Inr fs
      | Some (File c) \<Rightarrow> Inl (FileExistsError p))"

text \<open>
  \<^verbatim>\<open>os.rename(a, b)\<close> moves a regular file, replacing a regular file at \<^verbatim>\<open>b\<close>; it
  raises an \<^verbatim>\<open>OSError\<close> when \<^verbatim>\<open>b\<close> is on another mounted file system than \<^verbatim>\<open>a\<close>.
  The source renames a path only after \<^verbatim>\<open>os.path.isfile\<close> has accepted it, so the
  renaming of a directory is left out: it raises here.
\<close>

definition os_rename :: "'img env \<Rightarrow> filesys \<Rightarrow> string \<Rightarrow> string \<Rightarrow> exn + filesys" where
  "os_rename e fs a b =
     (case map_of fs a of
        None \<Rightarrow> Inl (FileNotFoundError a)
      | Some Dir \<Rightarrow> Inl (OSError a)
      | Some (File c) \<Rightarrow>
          (case map_of fs b of
             Some Dir \<Rightarrow> Inl (OSError b)
           | _ \<Rightarrow>
               if crosses_devices e a b then Inl (OSError a)
               else Inr (AList.update b (File c) (AList.delete a fs))))"

text \<open>\<^verbatim>\<open>os.remove(p)\<close>; each of its exceptions is an \<^verbatim>\<open>OSError\<close>.\<close>

definition os_remove :: "filesys \<Rightarrow> string \<Rightarrow> exn + filesys" where
  "os_remove fs p =
     (case map_of fs p of
        None \<Rightarrow> Inl (FileNotFoundError p)
      | Some Dir \<Rightarrow> Inl (OSError p)
      | Some (File c) \<Rightarrow> Inr (AList.delete p fs))"

text \<open>\<^verbatim>\<open>open(p, "rb").read()\<close>.\<close>

definition read_file :: "filesys \<Rightarrow> string \<Rightarrow> exn + string" where
  "read_file fs p =
     (case map_of fs p of
        None \<Rightarrow> Inl (FileNotFoundError p)
      | Some Dir \<Rightarrow> Inl (OSError p)
      | Some (File c) \<Rightarrow> Inr c)"

text \<open>
  The name of \<^verbatim>\<open>p\<close> inside the directory \<^verbatim>\<open>d\<close>, when \<^verbatim>\<open>p\<close> is directly in it.
\<close>

definition name_in :: "string \<Rightarrow> string \<Rightarrow> string option" where
  "name_in d p =
     (let name = drop (length d + 1) p
      in if prefix (d @ ''/'') p \<and> name \<noteq> [] \<and> CHR ''/'' \<notin> set name
         then Some name else None)"

text \<open>\<^verbatim>\<open>os.listdir(d)\<close>: each name once, in the order the file system gives.\<close>

definition listdir :: "filesys \<Rightarrow> string \<Rightarrow> exn + string list" where
  "listdir fs d =
     (case map_of fs d of
        Some Dir \<Rightarrow> Inr (remdups (List.map_filter (name_in d) (map fst fs)))
      | Some (File c) \<Rightarrow> Inl (OSError d)
      | None \<Rightarrow> Inl (FileNotFoundError d))"

text \<open>
  \<^verbatim>\<open>cv2.imread(p, cv2.IMREAD_UNCHANGED)\<close> returns \<^verbatim>\<open>None\<close> for a file that is not
  there or is no image. \<^verbatim>\<open>cv2.imwrite(p, img)\<close> writes the encoded image; it cannot
  write over a directory, and the source ignores what it returns. The file system itself
  is reliable: a write to a path that is free or holds a regular file succeeds.
\<close>

definition imread :: "'img env \<Rightarrow> filesys \<Rightarrow> string \<Rightarrow> 'img option" where
  "imread e fs p = (case map_of fs p of Some (File c) \<Rightarrow> decode_image e c | _ \<Rightarrow> None)"

definition imwrite :: "'img env \<Rightarrow> filesys \<Rightarrow> string \<Rightarrow> 'img \<Rightarrow> filesys" where
  "imwrite e fs p img =
     (case map_of fs p of
        Some Dir \<Rightarrow> fs
      | _ \<Rightarrow> AList.update p (File (encode_image e img)) fs)"

section \<open>Upscaling the frames\<close>

definition WEIGHTS_DIR :: string where
  "WEIGHTS_DIR = ''/workspace/weights''"

text \<open>The filter \<^verbatim>\<open>f.startswith("frame_") and f.endswith(".png")\<close>.\<close>

definition is_frame_file :: "string \<Rightarrow> bool" where
  "is_frame_file f = (startswith f ''frame_'' \<and> endswith f ''.png'')"

text \<open>The name written for a frame: \<^verbatim>\<open>fname.replace("frame_", "frames_upscaled_")\<close>.\<close>

definition out_name :: "string \<Rightarrow> string" where
  "out_name fname = replace ''frame_'' ''frames_upscaled_'' fname"

text \<open>
  The loop over the sorted frame files. An exception of \<^verbatim>\<open>enhance\<close> leaves the loop,
  with the files written so far.
\<close>

fun upscale_loop ::
  "'img env \<Rightarrow> string \<Rightarrow> pyfloat \<Rightarrow> string \<Rightarrow> string list \<Rightarrow> world \<Rightarrow> (exn + unit) \<times> world" where
  "upscale_loop e model_path scale work_dir [] w = (Inr (), w)"
| "upscale_loop e model_path scale work_dir (fname # rest) w =
     (let in_path = path_join work_dir fname;
          out_path = path_join work_dir (out_name fname);
          img = imread e (files w) in_path
      in case enhance e model_path img scale of
           Inl x \<Rightarrow> (Inl x, w)
         | Inr output \<Rightarrow>
             upscale_loop e model_path scale work_dir rest
               (w\<lparr>files := imwrite e (files w) out_path output\<rparr>))"

definition upscale_frames_cuda ::
  "'img env \<Rightarrow> string \<Rightarrow> pyfloat \<Rightarrow> string \<Rightarrow> world \<Rightarrow> (exn + unit) \<times> world" where
  "upscale_frames_cuda e work_dir scale model_name w =
     (let model_path = WEIGHTS_DIR @ ''/'' @ model_name @ ''.pth''
      in case load_weights e (files w) model_path of
           Some x \<Rightarrow> (Inl x, w)
         | None \<Rightarrow>
             (case listdir (files w) work_dir of
                Inl x \<Rightarrow> (Inl x, w)
              | Inr names \<Rightarrow>
                  upscale_loop e model_path scale work_dir
                    (sort (filter is_frame_file names)) w))"

section \<open>The pipeline of one job\<close>

subsection \<open>Command lines\<close>

text \<open>\<^verbatim>\<open>str(n)\<close> for an integer.\<close>

fun str_nat :: "nat \<Rightarrow> string" where
  "str_nat n =
     (if n < 10 then [char_of (48 + n)]
      else str_nat (n div 10) @ [char_of (48 + n mod 10)])"

definition str_int :: "int \<Rightarrow> string" where
  "str_int i = (if i < 0 then ''-'' @ str_nat (nat (- i)) else str_nat (nat i))"

definition curl_cmd :: "string \<Rightarrow> string \<Rightarrow> string list" where
  "curl_cmd url tmp_path = [''curl'', ''-L'', ''-s'', ''-S'', url, ''-o'', tmp_path]"

definition extract_cmd :: "string \<Rightarrow> string \<Rightarrow> string list" where
  "extract_cmd src frame_pattern =
     [''ffmpeg'', ''-y'', ''-i'', src, ''-q:v'', ''1'', frame_pattern]"

definition encode_cmd ::
  "'img env \<Rightarrow> pyfloat \<Rightarrow> string \<Rightarrow> int \<Rightarrow> string \<Rightarrow> string \<Rightarrow> string list" where
  "encode_cmd e out_fps upscaled_frame_pattern crf preset upscaled_video =
     [''ffmpeg'', ''-y'', ''-framerate'', str_float e out_fps,
      ''-i'', upscaled_frame_pattern, ''-c:v'', ''libx264'', ''-crf'', str_int crf,
      ''-preset'', preset, ''-pix_fmt'', ''yuv420p'', upscaled_video]"

definition remux_cmd :: "string \<Rightarrow> string \<Rightarrow> string \<Rightarrow> string list" where
  "remux_cmd upscaled_video src final_video =
     [''ffmpeg'', ''-y'', ''-i'', upscaled_video, ''-i'', src,
      ''-c:v'', ''copy'', ''-c:a'', ''copy'', ''-shortest'', final_video]"

subsection \<open>\<^verbatim>\<open>upscale_video\<close>\<close>

definition work_dir_of :: "'img env \<Rightarrow> string" where
  "work_dir_of e = ''/tmp/'' @ uuid4_str e"

text \<open>
  The frame rate for the reassembly:
  \<^verbatim>\<open>fps if fps is not None and fps > 0 else get_video_fps(src)\<close>.
\<close>

definition out_fps_of ::
  "'img env \<Rightarrow> pyfloat option \<Rightarrow> string \<Rightarrow> world \<Rightarrow> (exn + pyfloat) \<times> world" where
  "out_fps_of e fps src w =
     (case fps of
        None \<Rightarrow> get_video_fps e src w
      | Some f \<Rightarrow> if float_pos f then (Inr f, w) else get_video_fps e src w)"

text \<open>The four stages after the source is in place.\<close>

definition run_stages ::
  "'img env \<Rightarrow> string \<Rightarrow> pyfloat \<Rightarrow> string \<Rightarrow> pyfloat \<Rightarrow> int \<Rightarrow> string \<Rightarrow> world
     \<Rightarrow> (exn + string) \<times> world" where
  "run_stages e work_dir scale model out_fps crf preset w =
     (let src = path_join work_dir ''src.mp4'';
          frame_pattern = path_join work_dir ''frame_%08d.png'';
          upscaled_frame_pattern = path_join work_dir ''frames_upscaled_%08d.png'';
          upscaled_video = path_join work_dir ''upscaled_noaudio.mp4'';
          final_video = path_join work_dir ''upscaled_with_audio.mp4''
      in case run e (extract_cmd src frame_pattern) w of
           (Inl x, w1) \<Rightarrow> (Inl x, w1)
         | (Inr u1, w1) \<Rightarrow>
        (case upscale_frames_cuda e work_dir scale model w1 of
           (Inl x, w2) \<Rightarrow> (Inl x, w2)
         | (Inr u2, w2) \<Rightarrow>
        (case run e (encode_cmd e out_fps upscaled_frame_pattern crf preset upscaled_video) w2 of
           (Inl x, w3) \<Rightarrow> (Inl x, w3)
         | (Inr u3, w3) \<Rightarrow>
        (case run e (remux_cmd upscaled_video src final_video) w3 of
           (Inl x, w4) \<Rightarrow> (Inl x, w4)
         | (Inr u4, w4) \<Rightarrow> (Inr final_video, w4)))))"

text \<open>
  The working directory is made, the input is renamed to its \<^verbatim>\<open>src.mp4\<close> unless it is
  that file already (the two \<^verbatim>\<open>os.path.abspath\<close> are the paths themselves), the frame
  rate is settled and the stages run.
\<close>

definition upscale_video ::
  "'img env \<Rightarrow> string \<Rightarrow> pyfloat \<Rightarrow> string \<Rightarrow> pyfloat option \<Rightarrow> int \<Rightarrow> string \<Rightarrow> world
     \<Rightarrow> (exn + string) \<times> world" where
  "upscale_video e input_path scale model fps crf preset w =
     (let work_dir = work_dir_of e;
          src = path_join work_dir ''src.mp4''
      in case makedirs (files w) work_dir of
           Inl x \<Rightarrow> (Inl x, w)
         | Inr fs1 \<Rightarrow>
        (case (if input_path \<noteq> src then os_rename e fs1 input_path src else Inr fs1) of
           Inl x \<Rightarrow> (Inl x, w\<lparr>files := fs1\<rparr>)
         | Inr fs2 \<Rightarrow>
        (case out_fps_of e fps src (w\<lparr>files := fs2\<rparr>) of
           (Inl x, w3) \<Rightarrow> (Inl x, w3)
         | (Inr out_fps, w3) \<Rightarrow>
             run_stages e work_dir scale model out_fps crf preset w3)))"

subsection \<open>\<^verbatim>\<open>handler\<close>\<close>

text \<open>
  A value of the payload as \<^verbatim>\<open>json\<close> decodes it: \<^verbatim>\<open>null\<close>, a boolean, an integer, a
  float, a string, or a list or object (\<^verbatim>\<open>JOther\<close>).
\<close>

datatype json = JNull | JBool bool | JInt int | JFloat pyfloat | JStr string | JOther

text \<open>
  The job payload \<^verbatim>\<open>event.get("input") or event\<close>. The options that \<^verbatim>\<open>handler\<close>
  converts with \<^verbatim>\<open>float()\<close> and \<^verbatim>\<open>int()\<close> are any value, \<^verbatim>\<open>None\<close> when the key
  is absent; the other keys hold a string, and are \<^verbatim>\<open>None\<close> when absent or \<^verbatim>\<open>null\<close>.
\<close>

record job_input =
  input_video_url :: "string option"
  input_file_path :: "string option"
  input_target_resolution :: "string option"
  input_scale :: "json option"
  input_model :: "string option"
  input_output_fps :: "json option"
  input_crf :: "json option"
  input_preset :: "string option"

text \<open>\<^verbatim>\<open>float(v)\<close> and \<^verbatim>\<open>int(v)\<close> for a value of the payload.\<close>

definition py_float_of :: "'img env \<Rightarrow> json \<Rightarrow> exn + pyfloat" where
  "py_float_of e v =
     (case v of
        JNull \<Rightarrow> Inl TypeError
      | JBool b \<Rightarrow> Inr (Fin (if b then 1 else 0))
      | JInt i \<Rightarrow> (case int_to_float e i of None \<Rightarrow> Inl OverflowError | Some f \<Rightarrow> Inr f)
      | JFloat f \<Rightarrow> Inr f
      | JStr t \<Rightarrow> (case py_float e t of None \<Rightarrow> Inl ValueError | Some f \<Rightarrow> Inr f)
      | JOther \<Rightarrow> Inl TypeError)"

definition py_int_of :: "'img env \<Rightarrow> json \<Rightarrow> exn + int" where
  "py_int_of e v =
     (case v of
        JNull \<Rightarrow> Inl TypeError
      | JBool b \<Rightarrow> Inr (if b then 1 else 0)
      | JInt i \<Rightarrow> Inr i
      | JFloat f \<Rightarrow>
          (case f of
             Fin r \<Rightarrow> Inr (if 0 \<le> r then \<lfloor>r\<rfloor> else \<lceil>r\<rceil>)
           | NaN \<Rightarrow> Inl ValueError
           | _ \<Rightarrow> Inl OverflowError)
      | JStr t \<Rightarrow> (case py_int e t of None \<Rightarrow> Inl ValueError | Some i \<Rightarrow> Inr i)
      | JOther \<Rightarrow> Inl TypeError)"

text \<open>\<^verbatim>\<open>float(v) if v is not None else None\<close> for \<^verbatim>\<open>v = job_input.get(key)\<close>.\<close>

definition optional_float :: "'img env \<Rightarrow> json option \<Rightarrow> exn + pyfloat option" where
  "optional_float e v =
     (case v of
        None \<Rightarrow> Inr None
      | Some JNull \<Rightarrow> Inr None
      | Some j \<Rightarrow> (case py_float_of e j of Inl x \<Rightarrow> Inl x | Inr f \<Rightarrow> Inr (Some f)))"

text \<open>The options as converted.\<close>

record options =
  opt_scale :: "pyfloat option"
  opt_output_fps :: "pyfloat option"
  opt_crf :: int

text \<open>
  The \<^verbatim>\<open>params\<close> of a result; an output frame rate of \<^verbatim>\<open>None\<close> stands for
  \<^verbatim>\<open>"source"\<close>.
\<close>

record params =
  param_scale :: pyfloat
  param_model :: string
  param_target_resolution :: "string option"
  param_crf :: int
  param_preset :: string
  param_output_fps :: "pyfloat option"

text \<open>
  The two dictionaries that \<^verbatim>\<open>handler\<close> returns: \<^verbatim>\<open>Failure\<close> has the key
  \<^verbatim>\<open>error\<close> and no output (\<^verbatim>\<open>output_base64\<close> and \<^verbatim>\<open>output_url\<close> are
  \<^verbatim>\<open>None\<close>); \<^verbatim>\<open>Success\<close> has the encoded video and the parameters used.
\<close>

datatype response = Failure string | Success string params

text \<open>Truth of an optional string: neither \<^verbatim>\<open>None\<close> nor empty.\<close>

definition truthy :: "string option \<Rightarrow> bool" where
  "truthy x = (case x of None \<Rightarrow> False | Some t \<Rightarrow> t \<noteq> [])"

text \<open>\<^verbatim>\<open>x or d\<close> for an optional string.\<close>

definition or_else :: "string option \<Rightarrow> string \<Rightarrow> string" where
  "or_else x d = (case x of None \<Rightarrow> d | Some t \<Rightarrow> if t = [] then d else t)"

definition DEFAULT_CRF :: int where
  "DEFAULT_CRF = 20"

definition DEFAULT_PRESET :: string where
  "DEFAULT_PRESET = ''medium''"

definition model_of :: "'img env \<Rightarrow> job_input \<Rightarrow> string" where
  "model_of e ji = or_else (Some (strip (or_else (input_model ji) (DEFAULT_MODEL e)))) (DEFAULT_MODEL e)"

text \<open>
  \<^verbatim>\<open>int(job_input.get("crf", DEFAULT_CRF))\<close>: the default stands in for an absent key
  only, and a \<^verbatim>\<open>null\<close> is converted like any value.
\<close>

definition crf_of :: "'img env \<Rightarrow> job_input \<Rightarrow> exn + int" where
  "crf_of e ji = (case input_crf ji of None \<Rightarrow> Inr DEFAULT_CRF | Some v \<Rightarrow> py_int_of e v)"

text \<open>
  Lines 208 to 213, in their order: \<^verbatim>\<open>scale\<close>, \<^verbatim>\<open>output_fps\<close>, \<^verbatim>\<open>crf\<close>. They stand
  before the test of the source and outside the \<^verbatim>\<open>try\<close>.
\<close>

definition read_options :: "'img env \<Rightarrow> job_input \<Rightarrow> exn + options" where
  "read_options e ji =
     (case optional_float e (input_scale ji) of
        Inl x \<Rightarrow> Inl x
      | Inr scale \<Rightarrow>
     (case optional_float e (input_output_fps ji) of
        Inl x \<Rightarrow> Inl x
      | Inr output_fps \<Rightarrow>
     (case crf_of e ji of
        Inl x \<Rightarrow> Inl x
      | Inr crf \<Rightarrow>
          Inr \<lparr>opt_scale = scale, opt_output_fps = output_fps, opt_crf = crf\<rparr>)))"

definition preset_of :: "job_input \<Rightarrow> string" where
  "preset_of ji = or_else (Some (strip (or_else (input_preset ji) DEFAULT_PRESET))) DEFAULT_PRESET"

text \<open>\<^verbatim>\<open>repr\<close> of a string and of a list of strings, for code points below 256.\<close>

definition hex_digit :: "nat \<Rightarrow> char" where
  "hex_digit n = (if n < 10 then char_of (48 + n) else char_of (87 + n))"

definition repr_char :: "char \<Rightarrow> char \<Rightarrow> string" where
  "repr_char quote c =
     (let n = (of_char c :: nat) in
      if c = quote \<or> n = 92 then [CHR 0x5C, c]
      else if n = 9 then [CHR 0x5C, CHR ''t'']
      else if n = 10 then [CHR 0x5C, CHR ''n'']
      else if n = 13 then [CHR 0x5C, CHR ''r'']
      else if n < 32 \<or> (127 \<le> n \<and> n \<le> 160) \<or> n = 173
        then [CHR 0x5C, CHR ''x'', hex_digit (n div 16), hex_digit (n mod 16)]
      else [c])"

definition repr_str :: "string \<Rightarrow> string" where
  "repr_str t =
     (let quote = (if CHR 0x27 \<in> set t \<and> CHR 0x22 \<notin> set t
                   then CHR 0x22 else CHR 0x27)
      in [quote] @ concat (map (repr_char quote) t) @ [quote])"

fun join_with :: "string \<Rightarrow> string list \<Rightarrow> string" where
  "join_with sep [] = []"
| "join_with sep [x] = x"
| "join_with sep (x # y # ys) = x @ sep @ join_with sep (y # ys)"

definition repr_list :: "string list \<Rightarrow> string" where
  "repr_list xs = ''['' @ join_with '', '' (map repr_str xs) @ '']''"

text \<open>
  \<^verbatim>\<open>str(e)\<close> for a \<^verbatim>\<open>CalledProcessError\<close>, as \<^verbatim>\<open>subprocess\<close> defines it: the command
  and the exit status, or the signal for a negative status.
\<close>

definition str_CalledProcessError :: "'img env \<Rightarrow> int \<Rightarrow> string list \<Rightarrow> string" where
  "str_CalledProcessError e rc cmd =
     (if rc < 0 then
        (case signal_repr e (- rc) of
           Some name \<Rightarrow>
             ''Command '' @ [CHR 0x27] @ repr_list cmd @ [CHR 0x27]
               @ '' died with '' @ name @ ''.''
         | None \<Rightarrow>
             ''Command '' @ [CHR 0x27] @ repr_list cmd @ [CHR 0x27]
               @ '' died with unknown signal '' @ str_int (- rc) @ ''.'')
      else ''Command '' @ [CHR 0x27] @ repr_list cmd @ [CHR 0x27]
             @ '' returned non-zero exit status '' @ str_int rc @ ''.'')"

text \<open>Lines 243 to 271: the scale, the pipeline, and the result read back.\<close>

definition process_video ::
  "'img env \<Rightarrow> job_input \<Rightarrow> options \<Rightarrow> string \<Rightarrow> world \<Rightarrow> (exn + response) \<times> world" where
  "process_video e ji opts path w =
     (case resolve_scale (opt_scale opts) (input_target_resolution ji) of
        Inl x \<Rightarrow> (Inl x, w)
      | Inr sc \<Rightarrow>
          (case upscale_video e path sc (model_of e ji) (opt_output_fps opts)
                  (opt_crf opts) (preset_of ji) w of
             (Inl x, w') \<Rightarrow> (Inl x, w')
           | (Inr out_path, w') \<Rightarrow>
               (case read_file (files w') out_path of
                  Inl x \<Rightarrow> (Inl x, w')
                | Inr data \<Rightarrow>
                    (Inr (Success (b64encode e data)
                       \<lparr>param_scale = sc, param_model = model_of e ji,
                        param_target_resolution = input_target_resolution ji,
                        param_crf = opt_crf opts, param_preset = preset_of ji,
                        param_output_fps = opt_output_fps opts\<rparr>), w'))))"

text \<open>The body of the \<^verbatim>\<open>try\<close>.\<close>

definition handler_try ::
  "'img env \<Rightarrow> job_input \<Rightarrow> options \<Rightarrow> string \<Rightarrow> world \<Rightarrow> (exn + response) \<times> world" where
  "handler_try e ji opts tmp_path w =
     (if truthy (input_video_url ji) then
        (case run e (curl_cmd (or_else (input_video_url ji) []) tmp_path) w of
           (Inl x, w1) \<Rightarrow> (Inl x, w1)
         | (Inr u, w1) \<Rightarrow>
             if missing_or_empty (files w1) tmp_path
             then (Inr (Failure ''Download failed or empty file.''), w1)
             else process_video e ji opts tmp_path w1)
      else
        (let file_path = or_else (input_file_path ji) []
         in if isfile (files w) file_path then process_video e ji opts file_path w
            else (Inr (Failure (''File not found: '' @ file_path)), w)))"

text \<open>
  The clause \<^verbatim>\<open>except subprocess.CalledProcessError as e\<close>; any other exception goes on
  to the caller.
\<close>

definition handler_except :: "'img env \<Rightarrow> exn + response \<Rightarrow> exn + response" where
  "handler_except e r =
     (case r of
        Inl (CalledProcessError rc cmd) \<Rightarrow>
          Inr (Failure (''Upscale failed: '' @ str_CalledProcessError e rc cmd))
      | _ \<Rightarrow> r)"

text \<open>
  The clause \<^verbatim>\<open>finally\<close>: a download that is still at its path is removed, and an
  \<^verbatim>\<open>OSError\<close> of the removal is passed over.
\<close>

definition handler_finally :: "job_input \<Rightarrow> string \<Rightarrow> world \<Rightarrow> world" where
  "handler_finally ji tmp_path w =
     (if truthy (input_video_url ji) \<and> isfile (files w) tmp_path
      then (case os_remove (files w) tmp_path of
              Inl x \<Rightarrow> w
            | Inr fs \<Rightarrow> w\<lparr>files := fs\<rparr>)
      else w)"

text \<open>The path of a download: \<^verbatim>\<open>f"/tmp/input_{uuid.uuid4().hex}.mp4"\<close>.\<close>

definition tmp_path_of :: "'img env \<Rightarrow> string" where
  "tmp_path_of e = ''/tmp/input_'' @ uuid4_hex e @ ''.mp4''"

text \<open>
  The options are read first; an exception of theirs leaves \<^verbatim>\<open>handler\<close> as it is
  raised. Then the source is tested, and the \<^verbatim>\<open>try\<close> runs with its two clauses.
\<close>

definition handler :: "'img env \<Rightarrow> job_input \<Rightarrow> world \<Rightarrow> (exn + response) \<times> world" where
  "handler e ji w =
     (case read_options e ji of
        Inl x \<Rightarrow> (Inl x, w)
      | Inr opts \<Rightarrow>
          if truthy (input_video_url ji) \<or> truthy (input_file_path ji) then
            (let tmp_path = tmp_path_of e
             in case handler_try e ji opts tmp_path w of
                  (r, w1) \<Rightarrow> (handler_except e r, handler_finally ji tmp_path w1))
          else
            (Inr (Failure ''Provide either 'video_url' or 'file_path' in input.''), w))"

section \<open>Observations\<close>

text \<open>
  The index of a frame file is the run of decimal digits between the prefix and the
  suffix of its name: \<^verbatim>\<open>frame_00000007.png\<close> and \<^verbatim>\<open>frames_upscaled_00000007.png\<close>
  have the index \<^verbatim>\<open>00000007\<close>.
\<close>

definition is_digit :: "char \<Rightarrow> bool" where
  "is_digit c = (48 \<le> (of_char c :: nat) \<and> (of_char c :: nat) \<le> 57)"

definition index_of :: "string \<Rightarrow> string \<Rightarrow> string \<Rightarrow> string option" where
  "index_of pre suf name =
     (let mid = take (length name - length pre - length suf) (drop (length pre) name)
      in if name = pre @ mid @ suf \<and> mid \<noteq> [] \<and> list_all is_digit mid
         then Some mid else None)"

definition frame_indices :: "string list \<Rightarrow> string list" where
  "frame_indices names = List.map_filter (index_of ''frame_'' ''.png'') names"

definition upscaled_indices :: "string list \<Rightarrow> string list" where
  "upscaled_indices names = List.map_filter (index_of ''frames_upscaled_'' ''.png'') names"

text \<open>Whether the image library enhances the frame file \<^verbatim>\<open>f\<close> of a directory.\<close>

definition enhances ::
  "'img env \<Rightarrow> string \<Rightarrow> filesys \<Rightarrow> string \<Rightarrow> pyfloat \<Rightarrow> string \<Rightarrow> bool" where
  "enhances e model_path fs work_dir scale f =
     (case enhance e model_path (imread e fs (path_join work_dir f)) scale of
        Inl x \<Rightarrow> False
      | Inr img \<Rightarrow> True)"

text \<open>
  What \<^verbatim>\<open>ffprobe\<close> does for the two probes, and the fields of what it printed: the
  text stripped and split at the slash, or at the comma.
\<close>

definition fps_probe :: "'img env \<Rightarrow> string \<Rightarrow> world \<Rightarrow> proc" where
  "fps_probe e path w = exec e (fps_cmd path) (files w)"

definition fps_fields :: "'img env \<Rightarrow> string \<Rightarrow> world \<Rightarrow> string list" where
  "fps_fields e path w = split_on (CHR ''/'') (strip (stdout (fps_probe e path w)))"

definition size_probe :: "'img env \<Rightarrow> string \<Rightarrow> world \<Rightarrow> proc" where
  "size_probe e path w = exec e (size_cmd path) (files w)"

definition size_fields :: "'img env \<Rightarrow> string \<Rightarrow> world \<Rightarrow> string list" where
  "size_fields e path w = split_on (CHR '','') (strip (stdout (size_probe e path w)))"

text \<open>The download of a request: the process that \<^verbatim>\<open>curl\<close> is for it.\<close>

definition download :: "'img env \<Rightarrow> job_input \<Rightarrow> world \<Rightarrow> proc" where
  "download e ji w =
     exec e (curl_cmd (or_else (input_video_url ji) []) (tmp_path_of e)) (files w)"

text \<open>
  The calls of \<^verbatim>\<open>run\<close> in a log that exited with a non-zero status, with that
  status.
\<close>

definition failures :: "(call \<times> string list \<times> int) list \<Rightarrow> (string list \<times> int) list" where
  "failures entries =
     map snd (filter (\<lambda>entry. fst entry = CheckCall \<and> snd (snd entry) \<noteq> 0) entries)"

text \<open>
  How a step that takes the world \<^verbatim>\<open>w\<close> to \<^verbatim>\<open>w1\<close> with the result \<^verbatim>\<open>r\<close> relates
  to the failures logged: a step that returns logs none, and a step that raises logs
  none, or logs one and raises the \<^verbatim>\<open>CalledProcessError\<close> of it.
\<close>

definition tracked :: "world \<Rightarrow> exn + 'a \<Rightarrow> world \<Rightarrow> bool" where
  "tracked w r w1 =
     (case r of
        Inr v \<Rightarrow> failures (spawned w1) = failures (spawned w)
      | Inl x \<Rightarrow>
          failures (spawned w1) = failures (spawned w)
          \<or> (\<exists>rc cmd. x = CalledProcessError rc cmd
                \<and> failures (spawned w1) = failures (spawned w) @ [(cmd, rc)]))"

text \<open>
  An environment whose programs remove no directory and write no file over one.
\<close>

definition keeps_directories :: "'img env \<Rightarrow> bool" where
  "keeps_directories e =
     (\<forall>cmd fs p. map_of fs p = Some Dir \<longrightarrow>
        map_of (files_after (exec e cmd fs)) p = Some Dir)"

text \<open>Whether a text occurs inside another.\<close>

definition contains :: "string \<Rightarrow> string \<Rightarrow> bool" where
  "contains text part = list_ex (prefix part) (suffixes text)"

text \<open>The same environment with other texts on the standard error of its programs.\<close>

definition with_stderr ::
  "(string list \<Rightarrow> filesys \<Rightarrow> string) \<Rightarrow> 'img env \<Rightarrow> 'img env" where
  "with_stderr g e = e\<lparr>exec := \<lambda>cmd fs. (exec e cmd fs)\<lparr>stderr := g cmd fs\<rparr>\<rparr>"

section \<open>A sample environment\<close>

text \<open>
  Stand-ins for the outside, for the concrete runs below. \<^verbatim>\<open>float()\<close> and \<^verbatim>\<open>int()\<close>
  are given on plain runs of digits only. Floats are IEEE 754 doubles: a real number is
  rounded to the nearest double, to the even one of two that are equally near, and to
  an infinity beyond the range; \<^verbatim>\<open>str\<close> is given on the two frame rates of the runs
  below, the double nearest to 24000/1001 and 30.0. The sample programs behave as follows:
  \<^verbatim>\<open>curl\<close> fails with status 22 on the URL that ends in \<^verbatim>\<open>missing.mp4\<close>, writes an
  empty file for \<^verbatim>\<open>empty.mp4\<close>, a text that is no video for \<^verbatim>\<open>text.mp4\<close>, and a
  video otherwise; \<^verbatim>\<open>ffprobe\<close> prints \<^verbatim>\<open>24000/1001\<close>; \<^verbatim>\<open>ffmpeg\<close> extracts two frames
  from a video and fails on anything else, and writes its output file when it encodes
  or remuxes.
\<close>

definition nat_of_digits :: "string \<Rightarrow> nat" where
  "nat_of_digits t = foldl (\<lambda>n c. 10 * n + (of_char c - 48)) 0 t"

text \<open>The number of binary digits of a natural number.\<close>

fun bit_length :: "nat \<Rightarrow> nat" where
  "bit_length n = (if n = 0 then 0 else Suc (bit_length (n div 2)))"

text \<open>The exponent \<^verbatim>\<open>k\<close> with \<^verbatim>\<open>2^k <= x < 2^(k+1)\<close>, for a positive \<^verbatim>\<open>x\<close>.\<close>

definition floor_log2 :: "rat \<Rightarrow> int" where
  "floor_log2 x =
     (if 1 \<le> x then int (bit_length (nat \<lfloor>x\<rfloor>)) - 1
      else - int (bit_length (nat \<lceil>1 / x\<rceil> - 1)))"

definition pow2 :: "int \<Rightarrow> rat" where
  "pow2 k = (if 0 \<le> k then 2 ^ nat k else 1 / 2 ^ nat (- k))"

definition round_half_even :: "rat \<Rightarrow> int" where
  "round_half_even x =
     (if x - of_int \<lfloor>x\<rfloor> < 1 / 2 then \<lfloor>x\<rfloor>
      else if 1 / 2 < x - of_int \<lfloor>x\<rfloor> then \<lfloor>x\<rfloor> + 1
      else if even \<lfloor>x\<rfloor> then \<lfloor>x\<rfloor> else \<lfloor>x\<rfloor> + 1)"

text \<open>
  The double nearest to a rational: 53 binary digits from the exponent 1023 down to
  the exponent -1022, steps of \<^verbatim>\<open>2^(-1074)\<close> below that.
\<close>

definition round_double :: "rat \<Rightarrow> pyfloat" where
  "round_double x =
     (if x = 0 then Fin 0
      else
        (let step = pow2 (max (floor_log2 \<bar>x\<bar>) (- 1022) - 52);
             y = of_int (round_half_even (\<bar>x\<bar> / step)) * step
         in if pow2 1024 \<le> y then (if x < 0 then NegInf else PosInf)
            else Fin (if x < 0 then - y else y)))"

text \<open>The quotient of two floats, for a divisor that is not zero.\<close>

definition sample_div :: "pyfloat \<Rightarrow> pyfloat \<Rightarrow> pyfloat" where
  "sample_div a b =
     (case b of
        Fin y \<Rightarrow>
          (case a of
             Fin x \<Rightarrow> round_double (x / y)
           | PosInf \<Rightarrow> (if 0 < y then PosInf else NegInf)
           | NegInf \<Rightarrow> (if 0 < y then NegInf else PosInf)
           | NaN \<Rightarrow> NaN)
      | NaN \<Rightarrow> NaN
      | _ \<Rightarrow> (case a of Fin x \<Rightarrow> Fin 0 | _ \<Rightarrow> NaN))"

definition sample_float :: "string \<Rightarrow> pyfloat option" where
  "sample_float t =
     (if t \<noteq> [] \<and> list_all is_digit t then Some (round_double (of_nat (nat_of_digits t)))
      else None)"

definition sample_int :: "string \<Rightarrow> int option" where
  "sample_int t =
     (if t \<noteq> [] \<and> list_all is_digit t then Some (int (nat_of_digits t)) else None)"

text \<open>A sample program writes a file where no directory is.\<close>

definition write_file :: "string \<Rightarrow> string \<Rightarrow> filesys \<Rightarrow> filesys" where
  "write_file p c fs =
     (case map_of fs p of Some Dir \<Rightarrow> fs | _ \<Rightarrow> AList.update p (File c) fs)"

definition finished :: "int \<Rightarrow> string \<Rightarrow> string \<Rightarrow> filesys \<Rightarrow> proc" where
  "finished rc out err fs = \<lparr>returncode = rc, stdout = out, stderr = err, files_after = fs\<rparr>"

definition sample_curl :: "string list \<Rightarrow> filesys \<Rightarrow> proc" where
  "sample_curl cmd fs =
     (let url = (case drop 4 cmd of [] \<Rightarrow> [] | u # us \<Rightarrow> u);
          target = (case rev cmd of [] \<Rightarrow> [] | t # ts \<Rightarrow> t)
      in if url = ''https://host.example/missing.mp4''
           then finished 22 [] ''curl: (22) The requested URL returned error: 404'' fs
         else if url = ''https://host.example/empty.mp4''
           then finished 0 [] [] (write_file target [] fs)
         else if url = ''https://host.example/text.mp4''
           then finished 0 [] [] (write_file target ''plain text'' fs)
         else finished 0 [] [] (write_file target ''video'' fs))"

definition sample_ffmpeg :: "string list \<Rightarrow> filesys \<Rightarrow> proc" where
  "sample_ffmpeg cmd fs =
     (let source = (case drop 3 cmd of [] \<Rightarrow> [] | u # us \<Rightarrow> u);
          target = (case rev cmd of [] \<Rightarrow> [] | t # ts \<Rightarrow> t)
      in if endswith target ''frame_%08d.png'' then
           (if map_of fs source = Some (File ''video'') then
              finished 0 [] []
                (write_file (take (length target - 14) target @ ''frame_00000002.png'') ''two''
                   (write_file (take (length target - 14) target @ ''frame_00000001.png'')
                      ''one'' fs))
            else finished 1 [] ''Invalid data found when processing input'' fs)
         else finished 0 [] [] (write_file target ''movie'' fs))"

definition sample_exec :: "string list \<Rightarrow> filesys \<Rightarrow> proc" where
  "sample_exec cmd fs =
     (let prog = (case cmd of [] \<Rightarrow> [] | a # as \<Rightarrow> a)
      in if prog = ''curl'' then sample_curl cmd fs
         else if prog = ''ffprobe'' then finished 0 (''24000/1001'' @ [CHR 0x0A]) [] fs
         else if prog = ''ffmpeg'' then sample_ffmpeg cmd fs
         else finished 127 [] ''command not found'' fs)"

text \<open>The sample image library decodes every file and marks what it has enhanced.\<close>

definition sample_env :: "(string list \<Rightarrow> filesys \<Rightarrow> proc) \<Rightarrow> string env" where
  "sample_env ex =
     \<lparr>exec = ex, py_float = sample_float, py_int = sample_int,
      int_to_float = (\<lambda>i. case round_double (of_int i) of
                               Fin r \<Rightarrow> Some (Fin r) | _ \<Rightarrow> None),
      float_div = sample_div, crosses_devices = (\<lambda>a b. False),
      str_float = (\<lambda>x. if x = Fin (6748650790265479 / 281474976710656)
                         then ''23.976023976023978'' else ''30.0''),
      signal_repr = (\<lambda>n. None),
      uuid4_hex = ''0123abcd'', uuid4_str = ''job-1'',
      b64encode = (\<lambda>t. ''base64:'' @ t), DEFAULT_MODEL = ''realesr-animevideov3'',
      load_weights = (\<lambda>fs p. None), decode_image = Some,
      enhance = (\<lambda>m img sc. case img of None \<Rightarrow> Inl RuntimeError
                                      | Some i \<Rightarrow> Inr (''upscaled '' @ i)),
      encode_image = (\<lambda>i. i)\<rparr>"

text \<open>A request with a source and no option.\<close>

definition request :: "string option \<Rightarrow> string option \<Rightarrow> job_input" where
  "request url path =
     \<lparr>input_video_url = url, input_file_path = path, input_target_resolution = None,
      input_scale = None, input_model = None, input_output_fps = None,
      input_crf = None, input_preset = None\<rparr>"

definition empty_world :: world where
  "empty_world = \<lparr>files = [], spawned = []\<rparr>"

text \<open>A working directory as the extraction of two frames leaves it.\<close>

definition extracted_world :: world where
  "extracted_world =
     \<lparr>files = [(''/tmp/job-1'', Dir), (''/tmp/job-1/src.mp4'', File ''video''),
               (''/tmp/job-1/frame_00000001.png'', File ''one''),
               (''/tmp/job-1/frame_00000002.png'', File ''two'')],
      spawned = []\<rparr>"

section \<open>Properties of scale resolution\<close>

lemma preset_key_plain [simp]:
  "preset_key ''2k'' = ''2k''" "preset_key ''1440p'' = ''1440p''"
  "preset_key ''1080p'' = ''1080p''"
  by (simp_all add: preset_key_def lower_def strip_def py_isspace_def py_lower_char_def)

lemma resolve_scale_no_explicit:
  "\<not> explicit_scale scale \<Longrightarrow> resolve_scale scale tr = scale_of_target tr"
  by (simp add: resolve_scale_def explicit_scale_def split: option.splits)

lemma scale_of_target_lookup:
  "scale_of_target (Some t) =
     Inr (case map_of TARGET_RESOLUTION_SCALE (preset_key t) of
            Some v \<Rightarrow> v | None \<Rightarrow> DEFAULT_SCALE)"
proof (cases "t = []")
  case True
  then show ?thesis
    by (simp add: scale_of_target_def preset_key_def lower_def strip_def
        TARGET_RESOLUTION_SCALE_def)
next
  case False
  then show ?thesis
    by (auto simp: scale_of_target_def Let_def dict_contains_def dict_getitem_def
        TARGET_RESOLUTION_SCALE_def DEFAULT_SCALE_def)
qed

text \<open>
  Claim C3. An explicit scale that is present and positive is returned as it is, whatever
  the target resolution. Without one, the targets \<^verbatim>\<open>"2k"\<close> and \<^verbatim>\<open>"1440p"\<close> give 2.0 and
  \<^verbatim>\<open>"1080p"\<close> gives 1.5. With neither a scale nor a target the result is the default 1.5.
\<close>

theorem resolve_scale_precedence:
  "(explicit_scale (Some s) \<longrightarrow> resolve_scale (Some s) tr = Inr s)
   \<and> (\<not> explicit_scale scale \<longrightarrow>
        resolve_scale scale (Some ''2k'') = Inr (Fin 2)
      \<and> resolve_scale scale (Some ''1440p'') = Inr (Fin 2)
      \<and> resolve_scale scale (Some ''1080p'') = Inr (Fin (3 / 2)))
   \<and> resolve_scale None None = Inr (Fin (3 / 2))"
proof (intro conjI impI)
  assume "explicit_scale (Some s)"
  then show "resolve_scale (Some s) tr = Inr s"
    by (simp add: resolve_scale_def explicit_scale_def)
next
  assume n: "\<not> explicit_scale scale"
  show "resolve_scale scale (Some ''2k'') = Inr (Fin 2)"
    by (simp add: resolve_scale_no_explicit [OF n] scale_of_target_lookup
        TARGET_RESOLUTION_SCALE_def)
  show "resolve_scale scale (Some ''1440p'') = Inr (Fin 2)"
    by (simp add: resolve_scale_no_explicit [OF n] scale_of_target_lookup
        TARGET_RESOLUTION_SCALE_def)
  show "resolve_scale scale (Some ''1080p'') = Inr (Fin (3 / 2))"
    by (simp add: resolve_scale_no_explicit [OF n] scale_of_target_lookup
        TARGET_RESOLUTION_SCALE_def)
next
  show "resolve_scale None None = Inr (Fin (3 / 2))"
    by (simp add: resolve_scale_def scale_of_target_def DEFAULT_SCALE_def)
qed

text \<open>
  The scenarios of the specification: no scale and \<^verbatim>\<open>"2k"\<close>; scale 3.0 beside
  \<^verbatim>\<open>"1080p"\<close>; a scale of zero, which is not explicit, beside \<^verbatim>\<open>"1080p"\<close>.
\<close>

theorem resolve_scale_precedence_witness:
  "explicit_scale (Some (Fin 3))
   \<and> resolve_scale (Some (Fin 3)) (Some ''1080p'') = Inr (Fin 3)
   \<and> \<not> explicit_scale (Some (Fin 0))
   \<and> resolve_scale (Some (Fin 0)) (Some ''2k'') = Inr (Fin 2)
   \<and> resolve_scale (Some (Fin 0)) (Some ''1080p'') = Inr (Fin (3 / 2))
   \<and> resolve_scale None None = Inr (Fin (3 / 2))"
  using resolve_scale_precedence [of "Fin 3" "Some ''1080p''" "Some (Fin 0)"]
  by (simp add: explicit_scale_def)

lemma replace_space: "replace '' '' [] t = filter (\<lambda>c. c \<noteq> CHR '' '') t"
  by (induction t) simp_all

lemma preset_key_eq:
  "preset_key t =
     filter (\<lambda>c. c \<noteq> CHR '' '')
       (map py_lower_char (rev (dropWhile py_isspace (rev (dropWhile py_isspace t)))))"
  by (simp add: preset_key_def lower_def strip_def replace_space)

lemma scale_of_key:
  "scale_of_target (Some t)
     = Inr (if preset_key t \<in> {''2k'', ''1440p''} then Fin 2 else Fin (3 / 2))"
  by (simp add: scale_of_target_lookup TARGET_RESOLUTION_SCALE_def DEFAULT_SCALE_def)

lemma preset_key_values:
  "preset_key ''2K'' = ''2k''"
  "preset_key '' 1440P '' = ''1440p''"
  "preset_key ''2 k'' = ''2k''"
  "preset_key ([CHR 0x09] @ ''1 4 4 0 P'' @ [CHR 0x0A]) = ''1440p''"
  "preset_key ''1 0 8 0 P'' = ''1080p''"
  "preset_key ''4K ultra'' = ''4kultra''"
  by code_simp+

text \<open>
  Claim C10. The target resolution is stripped of surrounding whitespace, lowercased and
  freed of every space before the lookup: \<^verbatim>\<open>"2K"\<close>, \<^verbatim>\<open>" 1440P "\<close>, \<^verbatim>\<open>"2 k"\<close> and
  \<^verbatim>\<open>"1 4 4 0 P"\<close> between a tab and a newline resolve to 2.0. When no explicit scale
  wins, the result for any target string is 2.0 if the string so normalised is \<^verbatim>\<open>2k\<close>
  or \<^verbatim>\<open>1440p\<close>, and 1.5 otherwise, for \<^verbatim>\<open>1080p\<close> as for a string that is no preset:
  the function returns a value and raises nothing.
\<close>

theorem resolve_scale_normalises:
  "resolve_scale None (Some ''2K'') = Inr (Fin 2)
   \<and> resolve_scale None (Some '' 1440P '') = Inr (Fin 2)
   \<and> resolve_scale None (Some ''2 k'') = Inr (Fin 2)
   \<and> resolve_scale None (Some ([CHR 0x09] @ ''1 4 4 0 P'' @ [CHR 0x0A])) = Inr (Fin 2)
   \<and> resolve_scale None (Some ''1 0 8 0 P'') = Inr (Fin (3 / 2))
   \<and> resolve_scale None (Some ''4K ultra'') = Inr (Fin (3 / 2))
   \<and> (\<not> explicit_scale scale \<longrightarrow>
        resolve_scale scale (Some t) =
          Inr (if filter (\<lambda>c. c \<noteq> CHR '' '')
                    (map py_lower_char
                       (rev (dropWhile py_isspace (rev (dropWhile py_isspace t)))))
                  \<in> {''2k'', ''1440p''}
               then Fin 2 else Fin (3 / 2)))"
proof (intro conjI impI)
  have n: "\<not> explicit_scale None"
    by (simp add: explicit_scale_def)
  note r = resolve_scale_no_explicit [OF n] scale_of_key
  show "resolve_scale None (Some ''2K'') = Inr (Fin 2)"
    by (simp add: r preset_key_values(1))
  show "resolve_scale None (Some '' 1440P '') = Inr (Fin 2)"
    by (simp add: r preset_key_values(2))
  show "resolve_scale None (Some ''2 k'') = Inr (Fin 2)"
    by (simp add: r preset_key_values(3))
  show "resolve_scale None (Some ([CHR 0x09] @ ''1 4 4 0 P'' @ [CHR 0x0A])) = Inr (Fin 2)"
    by (simp only: r preset_key_values(4)) simp
  show "resolve_scale None (Some ''1 0 8 0 P'') = Inr (Fin (3 / 2))"
    by (simp add: r preset_key_values(5))
  show "resolve_scale None (Some ''4K ultra'') = Inr (Fin (3 / 2))"
    by (simp add: r preset_key_values(6))
next
  assume n: "\<not> explicit_scale scale"
  show "resolve_scale scale (Some t) =
          Inr (if filter (\<lambda>c. c \<noteq> CHR '' '')
                    (map py_lower_char
                       (rev (dropWhile py_isspace (rev (dropWhile py_isspace t)))))
                  \<in> {''2k'', ''1440p''}
               then Fin 2 else Fin (3 / 2))"
    unfolding resolve_scale_no_explicit [OF n] scale_of_key preset_key_eq ..
qed

text \<open>
  A scale of zero is not explicit: beside it \<^verbatim>\<open>" 2 K"\<close>, whose inner space goes and
  whose letter is lowered, gives 2.0, and \<^verbatim>\<open>"2 k p"\<close> gives the default.
\<close>

theorem resolve_scale_normalises_witness:
  "\<not> explicit_scale (Some (Fin 0))
   \<and> resolve_scale (Some (Fin 0)) (Some '' 2 K'') = Inr (Fin 2)
   \<and> resolve_scale (Some (Fin 0)) (Some ''2 k p'') = Inr (Fin (3 / 2))"
proof -
  have n: "\<not> explicit_scale (Some (Fin 0))"
    by (simp add: explicit_scale_def)
  have k: "filter (\<lambda>c. c \<noteq> CHR '' '')
        (map py_lower_char (rev (dropWhile py_isspace (rev (dropWhile py_isspace '' 2 K'')))))
      = ''2k''"
    by code_simp
  have k': "filter (\<lambda>c. c \<noteq> CHR '' '')
        (map py_lower_char (rev (dropWhile py_isspace (rev (dropWhile py_isspace ''2 k p'')))))
      = ''2kp''"
    by code_simp
  from resolve_scale_normalises [of "Some (Fin 0)" "'' 2 K''"] n
  have a: "resolve_scale (Some (Fin 0)) (Some '' 2 K'') = Inr (Fin 2)"
    unfolding k by simp
  from resolve_scale_normalises [of "Some (Fin 0)" "''2 k p''"] n
  have b: "resolve_scale (Some (Fin 0)) (Some ''2 k p'') = Inr (Fin (3 / 2))"
    unfolding k' by simp
  from n a b show ?thesis by blast
qed

section \<open>Properties of the media prober\<close>

lemma floor_rat_numeral:
  "\<lfloor>numeral a / numeral b :: rat\<rfloor> = numeral a div numeral b"
  using floor_divide_of_int_eq [of "numeral a" "numeral b", where ?'a = rat] by simp

lemma ceiling_rat_numeral:
  "\<lceil>numeral a / numeral b :: rat\<rceil> = - (- numeral a div numeral b)"
  using floor_divide_of_int_eq [of "- numeral a" "numeral b", where ?'a = rat]
  by (simp add: ceiling_def)

lemmas sample_defs =
  sample_env_def sample_exec_def sample_curl_def sample_ffmpeg_def finished_def write_file_def
  sample_float_def sample_int_def is_digit_def nat_of_digits_def empty_world_def
  sample_div_def round_double_def round_half_even_def floor_log2_def pow2_def
  floor_rat_numeral ceiling_rat_numeral

lemma get_video_fps_returns: "\<exists>v. fst (get_video_fps e path w) = Inr v"
  by (simp add: get_video_fps_def split: prod.splits sum.splits)

lemma get_video_size_returns: "\<exists>v. fst (get_video_size e path w) = Inr v"
  by (simp add: get_video_size_def split: prod.splits sum.splits)

lemma check_output_fst:
  "fst (check_output e cmd w) =
     (let p = exec e cmd (files w) in
      if returncode p \<noteq> 0 then Inl (CalledProcessError (returncode p) cmd) else Inr (stdout p))"
  by (simp add: check_output_def spawn_def Let_def)

lemma get_video_fps_try_fst:
  "fst (get_video_fps_try e path w) =
     (case fst (check_output e (fps_cmd path) w) of
        Inl x \<Rightarrow> Inl x
      | Inr out \<Rightarrow>
          (case unpack2 (split_on (CHR ''/'') (strip out)) of
             Inl x \<Rightarrow> Inl x
           | Inr (num, den) \<Rightarrow> fps_of_pair e num den))"
  by (simp add: get_video_fps_try_def split: prod.splits sum.splits)

lemma get_video_fps_fst:
  "fst (get_video_fps e path w) =
     (case fst (get_video_fps_try e path w) of Inl x \<Rightarrow> Inr (Fin 30) | Inr v \<Rightarrow> Inr v)"
  by (simp add: get_video_fps_def split: prod.splits sum.splits)

lemma get_video_size_try_fst:
  "fst (get_video_size_try e path w) =
     (case fst (check_output e (size_cmd path) w) of
        Inl x \<Rightarrow> Inl x
      | Inr out \<Rightarrow>
          (case unpack2 (split_on (CHR '','') (strip out)) of
             Inl x \<Rightarrow> Inl x
           | Inr (wd, ht) \<Rightarrow>
               (case py_int e wd of
                  None \<Rightarrow> Inl ValueError
                | Some a \<Rightarrow>
                    (case py_int e ht of
                       None \<Rightarrow> Inl ValueError
                     | Some b \<Rightarrow> Inr (Some (a, b))))))"
  by (simp add: get_video_size_try_def split: prod.splits sum.splits option.splits)

lemma get_video_size_fst:
  "fst (get_video_size e path w) =
     (case fst (get_video_size_try e path w) of Inl x \<Rightarrow> Inr None | Inr v \<Rightarrow> Inr v)"
  by (simp add: get_video_size_def split: prod.splits sum.splits)

lemma unpack2_other: "(\<And>a b. xs \<noteq> [a, b]) \<Longrightarrow> unpack2 xs = Inl ValueError"
  by (cases xs rule: unpack2.cases) auto

lemma get_video_fps_failed:
  "returncode (fps_probe e path w) \<noteq> 0 \<Longrightarrow> fst (get_video_fps e path w) = Inr (Fin 30)"
  by (simp add: get_video_fps_fst get_video_fps_try_fst check_output_fst Let_def fps_probe_def)

lemma get_video_fps_fields:
  "returncode (fps_probe e path w) = 0 \<Longrightarrow>
   fst (get_video_fps e path w) =
     (case unpack2 (fps_fields e path w) of
        Inl x \<Rightarrow> Inr (Fin 30)
      | Inr (num, den) \<Rightarrow>
          (case fps_of_pair e num den of Inl x \<Rightarrow> Inr (Fin 30) | Inr v \<Rightarrow> Inr v))"
  by (simp add: get_video_fps_fst get_video_fps_try_fst check_output_fst Let_def fps_probe_def
      fps_fields_def split: sum.splits prod.splits)

lemma get_video_size_failed:
  "returncode (size_probe e path w) \<noteq> 0 \<Longrightarrow> fst (get_video_size e path w) = Inr None"
  by (simp add: get_video_size_fst get_video_size_try_fst check_output_fst Let_def
      size_probe_def)

lemma get_video_size_fields:
  "returncode (size_probe e path w) = 0 \<Longrightarrow>
   fst (get_video_size e path w) =
     (case unpack2 (size_fields e path w) of
        Inl x \<Rightarrow> Inr None
      | Inr (wd, ht) \<Rightarrow>
          (case py_int e wd of
             None \<Rightarrow> Inr None
           | Some a \<Rightarrow> (case py_int e ht of None \<Rightarrow> Inr None | Some b \<Rightarrow> Inr (Some (a, b)))))"
  by (simp add: get_video_size_fst get_video_size_try_fst check_output_fst Let_def
      size_probe_def size_fields_def split: sum.splits prod.splits option.splits)

lemma near_23976:
  fixes q :: rat
  assumes "\<bar>q - 24000 / 1001\<bar> \<le> (24000 / 1001) / 2 ^ 53"
  shows "\<bar>q - 23976 / 1000\<bar> < 1 / 1000"
proof -
  have "(24000 / 1001 :: rat) / 2 ^ 53 < 1 / 2000"
    by simp
  moreover have "\<bar>(24000 / 1001 :: rat) - 23976 / 1000\<bar> < 1 / 2000"
    by simp
  ultimately show ?thesis using assms by linarith
qed

text \<open>
  Claim C5. Neither probe raises: each returns a value, in every case. \<^verbatim>\<open>get_video_fps\<close>
  returns exactly 30.0 when \<^verbatim>\<open>ffprobe\<close> exits with a non-zero status, when what it
  printed is not two fields around one slash, when the second field is \<^verbatim>\<open>0\<close> or reads
  as zero, and when a field is no number. In the one case left it returns the quotient
  that Python computes of the two numbers; for 24000 and 1001 that double, which lies
  within the rounding of the exact quotient, is 23.976 to three decimals.
  \<^verbatim>\<open>get_video_size\<close> returns \<^verbatim>\<open>None\<close> when \<^verbatim>\<open>ffprobe\<close> fails, when it did not print
  two fields around one comma, and when a field is no integer; it returns the pair of
  width and height in the one case left.
\<close>

theorem media_prober_degrades:
  "(\<exists>v. fst (get_video_fps e path w) = Inr v)
   \<and> (returncode (fps_probe e path w) \<noteq> 0 \<longrightarrow>
        fst (get_video_fps e path w) = Inr (Fin 30))
   \<and> (returncode (fps_probe e path w) = 0 \<and> (\<forall>a b. fps_fields e path w \<noteq> [a, b]) \<longrightarrow>
        fst (get_video_fps e path w) = Inr (Fin 30))
   \<and> (returncode (fps_probe e path w) = 0 \<and> fps_fields e path w = [num, den]
        \<and> (den = ''0'' \<or> py_float e num = None \<or> py_float e den = None
             \<or> py_float e den = Some (Fin 0)) \<longrightarrow>
        fst (get_video_fps e path w) = Inr (Fin 30))
   \<and> (returncode (fps_probe e path w) = 0 \<and> fps_fields e path w = [num, den]
        \<and> den \<noteq> ''0'' \<and> py_float e num = Some n \<and> py_float e den = Some d
        \<and> d \<noteq> Fin 0 \<longrightarrow>
        fst (get_video_fps e path w) = Inr (float_div e n d))
   \<and> (returncode (fps_probe e path w) = 0 \<and> fps_fields e path w = [''24000'', ''1001'']
        \<and> py_float e ''24000'' = Some (Fin 24000) \<and> py_float e ''1001'' = Some (Fin 1001)
        \<and> float_div e (Fin 24000) (Fin 1001) = Fin q
        \<and> \<bar>q - 24000 / 1001\<bar> \<le> (24000 / 1001) / 2 ^ 53 \<longrightarrow>
        fst (get_video_fps e path w) = Inr (Fin q) \<and> \<bar>q - 23976 / 1000\<bar> < 1 / 1000)
   \<and> (\<exists>r. fst (get_video_size e path w) = Inr r)
   \<and> (returncode (size_probe e path w) \<noteq> 0 \<longrightarrow>
        fst (get_video_size e path w) = Inr None)
   \<and> (returncode (size_probe e path w) = 0 \<and> (\<forall>a b. size_fields e path w \<noteq> [a, b]) \<longrightarrow>
        fst (get_video_size e path w) = Inr None)
   \<and> (returncode (size_probe e path w) = 0 \<and> size_fields e path w = [wd, ht]
        \<and> (py_int e wd = None \<or> py_int e ht = None) \<longrightarrow>
        fst (get_video_size e path w) = Inr None)
   \<and> (returncode (size_probe e path w) = 0 \<and> size_fields e path w = [wd, ht]
        \<and> py_int e wd = Some x \<and> py_int e ht = Some y \<longrightarrow>
        fst (get_video_size e path w) = Inr (Some (x, y)))"
proof (intro conjI impI)
  show "\<exists>v. fst (get_video_fps e path w) = Inr v"
    by (rule get_video_fps_returns)
  show "\<exists>r. fst (get_video_size e path w) = Inr r"
    by (rule get_video_size_returns)
next
  assume "returncode (fps_probe e path w) \<noteq> 0"
  then show "fst (get_video_fps e path w) = Inr (Fin 30)"
    by (rule get_video_fps_failed)
next
  assume h: "returncode (fps_probe e path w) = 0 \<and> (\<forall>a b. fps_fields e path w \<noteq> [a, b])"
  then have "unpack2 (fps_fields e path w) = Inl ValueError"
    by (simp add: unpack2_other)
  with h show "fst (get_video_fps e path w) = Inr (Fin 30)"
    by (simp add: get_video_fps_fields)
next
  assume h: "returncode (fps_probe e path w) = 0 \<and> fps_fields e path w = [num, den]
        \<and> (den = ''0'' \<or> py_float e num = None \<or> py_float e den = None
             \<or> py_float e den = Some (Fin 0))"
  then have "fps_of_pair e num den = Inr (Fin 30) \<or> (\<exists>x. fps_of_pair e num den = Inl x)"
    by (auto simp: fps_of_pair_def truediv_def split: option.splits)
  with h show "fst (get_video_fps e path w) = Inr (Fin 30)"
    by (auto simp: get_video_fps_fields)
next
  assume h: "returncode (fps_probe e path w) = 0 \<and> fps_fields e path w = [num, den]
        \<and> den \<noteq> ''0'' \<and> py_float e num = Some n \<and> py_float e den = Some d
        \<and> d \<noteq> Fin 0"
  then show "fst (get_video_fps e path w) = Inr (float_div e n d)"
    by (simp add: get_video_fps_fields fps_of_pair_def truediv_def)
next
  assume h: "returncode (fps_probe e path w) = 0 \<and> fps_fields e path w = [''24000'', ''1001'']
        \<and> py_float e ''24000'' = Some (Fin 24000) \<and> py_float e ''1001'' = Some (Fin 1001)
        \<and> float_div e (Fin 24000) (Fin 1001) = Fin q
        \<and> \<bar>q - 24000 / 1001\<bar> \<le> (24000 / 1001) / 2 ^ 53"
  then show "fst (get_video_fps e path w) = Inr (Fin q)"
    by (simp add: get_video_fps_fields fps_of_pair_def truediv_def)
  from h have "\<bar>q - 24000 / 1001\<bar> \<le> (24000 / 1001) / 2 ^ 53"
    by (elim conjE)
  then show "\<bar>q - 23976 / 1000\<bar> < 1 / 1000"
    by (rule near_23976)
next
  assume "returncode (size_probe e path w) \<noteq> 0"
  then show "fst (get_video_size e path w) = Inr None"
    by (rule get_video_size_failed)
next
  assume h: "returncode (size_probe e path w) = 0 \<and> (\<forall>a b. size_fields e path w \<noteq> [a, b])"
  then have "unpack2 (size_fields e path w) = Inl ValueError"
    by (simp add: unpack2_other)
  with h show "fst (get_video_size e path w) = Inr None"
    by (simp add: get_video_size_fields)
next
  assume h: "returncode (size_probe e path w) = 0 \<and> size_fields e path w = [wd, ht]
        \<and> (py_int e wd = None \<or> py_int e ht = None)"
  then show "fst (get_video_size e path w) = Inr None"
    by (auto simp: get_video_size_fields split: option.splits)
next
  assume h: "returncode (size_probe e path w) = 0 \<and> size_fields e path w = [wd, ht]
        \<and> py_int e wd = Some x \<and> py_int e ht = Some y"
  then show "fst (get_video_size e path w) = Inr (Some (x, y))"
    by (simp add: get_video_size_fields)
qed

lemma sample_quotient:
  "sample_div (Fin 24000) (Fin 1001) = Fin (6748650790265479 / 281474976710656)"
  by (simp add: sample_div_def round_double_def round_half_even_def floor_log2_def pow2_def
      Let_def floor_rat_numeral)

lemma sample_float_values:
  "sample_float ''24000'' = Some (Fin 24000)" "sample_float ''1001'' = Some (Fin 1001)"
  "sample_float ''30'' = Some (Fin 30)" "sample_float ''00'' = Some (Fin 0)"
  "sample_float ''x'' = None"
  by (simp_all add: sample_float_def is_digit_def nat_of_digits_def round_double_def
      round_half_even_def floor_log2_def pow2_def Let_def)

text \<open>
  The scenarios on the sample environment. A probe that prints \<^verbatim>\<open>24000/1001\<close> gives
  the double nearest to that quotient, which is 23.976 to three decimals. A probe that
  exits with status 1, and the texts \<^verbatim>\<open>no rate\<close>, \<^verbatim>\<open>30/x\<close>, \<^verbatim>\<open>30/0\<close> and \<^verbatim>\<open>30/00\<close>
  give 30.0. For the size, a failed probe and the texts \<^verbatim>\<open>1280,720,\<close> and
  \<^verbatim>\<open>1280,high\<close> give \<^verbatim>\<open>None\<close>, and \<^verbatim>\<open>1280,720\<close> gives the pair.
\<close>

theorem media_prober_degrades_witness:
  "fst (get_video_fps (sample_env sample_exec) ''/tmp/job-1/src.mp4'' empty_world)
     = Inr (Fin (6748650790265479 / 281474976710656))
   \<and> \<bar>6748650790265479 / 281474976710656 - 23976 / 1000\<bar> < (1 / 1000 :: rat)
   \<and> fst (get_video_fps (sample_env (\<lambda>cmd. finished 1 [] [])) ''/tmp/job-1/src.mp4''
        empty_world) = Inr (Fin 30)
   \<and> fst (get_video_fps (sample_env (\<lambda>cmd. finished 0 ''no rate'' [])) ''/tmp/job-1/src.mp4''
        empty_world) = Inr (Fin 30)
   \<and> fst (get_video_fps (sample_env (\<lambda>cmd. finished 0 ''30/x'' [])) ''/tmp/job-1/src.mp4''
        empty_world) = Inr (Fin 30)
   \<and> fst (get_video_fps (sample_env (\<lambda>cmd. finished 0 ''30/0'' [])) ''/tmp/job-1/src.mp4''
        empty_world) = Inr (Fin 30)
   \<and> fst (get_video_fps (sample_env (\<lambda>cmd. finished 0 ''30/00'' [])) ''/tmp/job-1/src.mp4''
        empty_world) = Inr (Fin 30)
   \<and> fst (get_video_size (sample_env (\<lambda>cmd. finished 1 [] [])) ''/tmp/job-1/src.mp4''
        empty_world) = Inr None
   \<and> fst (get_video_size (sample_env (\<lambda>cmd. finished 0 ''1280,720,'' []))
        ''/tmp/job-1/src.mp4'' empty_world) = Inr None
   \<and> fst (get_video_size (sample_env (\<lambda>cmd. finished 0 ''1280,high'' []))
        ''/tmp/job-1/src.mp4'' empty_world) = Inr None
   \<and> fst (get_video_size (sample_env (\<lambda>cmd. finished 0 ''1280,720'' []))
        ''/tmp/job-1/src.mp4'' empty_world) = Inr (Some (1280, 720))"
proof -
  let ?p = "''/tmp/job-1/src.mp4''"
  let ?w = "empty_world"
  let ?q = "6748650790265479 / 281474976710656 :: rat"
  let ?e1 = "sample_env sample_exec"
  let ?e2 = "sample_env (\<lambda>cmd. finished 1 [] [])"
  let ?e3 = "sample_env (\<lambda>cmd. finished 0 ''no rate'' [])"
  let ?e4 = "sample_env (\<lambda>cmd. finished 0 ''30/x'' [])"
  let ?e5 = "sample_env (\<lambda>cmd. finished 0 ''30/0'' [])"
  let ?e6 = "sample_env (\<lambda>cmd. finished 0 ''30/00'' [])"
  let ?e7 = "sample_env (\<lambda>cmd. finished 0 ''1280,720,'' [])"
  let ?e8 = "sample_env (\<lambda>cmd. finished 0 ''1280,high'' [])"
  let ?e9 = "sample_env (\<lambda>cmd. finished 0 ''1280,720'' [])"
  note ev = sample_env_def sample_exec_def finished_def empty_world_def sample_int_def
    is_digit_def nat_of_digits_def fps_cmd_def size_cmd_def strip_def py_isspace_def
    fps_probe_def fps_fields_def size_probe_def size_fields_def sample_float_values
    sample_quotient
  have h1: "returncode (fps_probe ?e1 ?p ?w) = 0 \<and> fps_fields ?e1 ?p ?w = [''24000'', ''1001'']
      \<and> py_float ?e1 ''24000'' = Some (Fin 24000) \<and> py_float ?e1 ''1001'' = Some (Fin 1001)
      \<and> float_div ?e1 (Fin 24000) (Fin 1001) = Fin ?q
      \<and> \<bar>?q - 24000 / 1001\<bar> \<le> (24000 / 1001) / 2 ^ 53"
    by (simp add: ev)
  have h2: "returncode (fps_probe ?e2 ?p ?w) \<noteq> 0"
    by (simp add: ev)
  have h3: "returncode (fps_probe ?e3 ?p ?w) = 0 \<and> (\<forall>a b. fps_fields ?e3 ?p ?w \<noteq> [a, b])"
    by (simp add: ev)
  have h4: "returncode (fps_probe ?e4 ?p ?w) = 0 \<and> fps_fields ?e4 ?p ?w = [''30'', ''x'']
      \<and> (''x'' = ''0'' \<or> py_float ?e4 ''30'' = None \<or> py_float ?e4 ''x'' = None
           \<or> py_float ?e4 ''x'' = Some (Fin 0))"
    by (simp add: ev)
  have h5: "returncode (fps_probe ?e5 ?p ?w) = 0 \<and> fps_fields ?e5 ?p ?w = [''30'', ''0'']
      \<and> (''0'' = ''0'' \<or> py_float ?e5 ''30'' = None \<or> py_float ?e5 ''0'' = None
           \<or> py_float ?e5 ''0'' = Some (Fin 0))"
    by (simp add: ev)
  have h6: "returncode (fps_probe ?e6 ?p ?w) = 0 \<and> fps_fields ?e6 ?p ?w = [''30'', ''00'']
      \<and> (''00'' = ''0'' \<or> py_float ?e6 ''30'' = None \<or> py_float ?e6 ''00'' = None
           \<or> py_float ?e6 ''00'' = Some (Fin 0))"
    by (simp add: ev)
  have h7: "returncode (size_probe ?e2 ?p ?w) \<noteq> 0"
    by (simp add: ev)
  have h8: "returncode (size_probe ?e7 ?p ?w) = 0 \<and> (\<forall>a b. size_fields ?e7 ?p ?w \<noteq> [a, b])"
    by (simp add: ev)
  have h9: "returncode (size_probe ?e8 ?p ?w) = 0 \<and> size_fields ?e8 ?p ?w = [''1280'', ''high'']
      \<and> (py_int ?e8 ''1280'' = None \<or> py_int ?e8 ''high'' = None)"
    by (simp add: ev)
  have h10: "returncode (size_probe ?e9 ?p ?w) = 0 \<and> size_fields ?e9 ?p ?w = [''1280'', ''720'']
      \<and> py_int ?e9 ''1280'' = Some 1280 \<and> py_int ?e9 ''720'' = Some 720"
    by (simp add: ev)
  have a: "fst (get_video_fps ?e1 ?p ?w) = Inr (Fin ?q) \<and> \<bar>?q - 23976 / 1000\<bar> < 1 / 1000"
    using media_prober_degrades [of ?e1 ?p ?w _ _ _ _ ?q] h1 by blast
  have b: "fst (get_video_fps ?e2 ?p ?w) = Inr (Fin 30)"
    using media_prober_degrades [of ?e2 ?p ?w] h2 by blast
  have c: "fst (get_video_fps ?e3 ?p ?w) = Inr (Fin 30)"
    using media_prober_degrades [of ?e3 ?p ?w] h3 by blast
  have d: "fst (get_video_fps ?e4 ?p ?w) = Inr (Fin 30)"
    using media_prober_degrades [of ?e4 ?p ?w "''30''" "''x''"] h4 by blast
  have f: "fst (get_video_fps ?e5 ?p ?w) = Inr (Fin 30)"
    using media_prober_degrades [of ?e5 ?p ?w "''30''" "''0''"] h5 by blast
  have g: "fst (get_video_fps ?e6 ?p ?w) = Inr (Fin 30)"
    using media_prober_degrades [of ?e6 ?p ?w "''30''" "''00''"] h6 by blast
  have i: "fst (get_video_size ?e2 ?p ?w) = Inr None"
    using media_prober_degrades [of ?e2 ?p ?w] h7 by blast
  have j: "fst (get_video_size ?e7 ?p ?w) = Inr None"
    using media_prober_degrades [of ?e7 ?p ?w] h8 by blast
  have k: "fst (get_video_size ?e8 ?p ?w) = Inr None"
    using media_prober_degrades [of ?e8 ?p ?w _ _ _ _ _ "''1280''" "''high''"] h9 by blast
  have l: "fst (get_video_size ?e9 ?p ?w) = Inr (Some (1280, 720))"
    using media_prober_degrades [of ?e9 ?p ?w _ _ _ _ _ "''1280''" "''720''" 1280 720] h10
    by blast
  from a b c d f g i j k l show ?thesis by blast
qed

section \<open>Properties of the frame upscaling\<close>

lemma index_of_Some: "index_of pre suf name = Some i \<longleftrightarrow> name = pre @ i @ suf \<and> i \<noteq> [] \<and> list_all is_digit i"
  by (auto simp: index_of_def Let_def)

lemma replace_no_f: "CHR ''f'' \<notin> set s \<Longrightarrow> replace ''frame_'' new s = s"
  by (induction s) (auto simp: prefix_def)

lemma replace_keeps_f:
  "CHR ''f'' \<in> set s \<Longrightarrow> CHR ''f'' \<in> set (replace ''frame_'' ''frames_upscaled_'' s)"
  by (induction "''frame_''" "''frames_upscaled_''" s rule: replace.induct) (auto split: if_splits)

lemma replace_set: "set (replace old new s) \<subseteq> set s \<union> set new"
proof (induction old new s rule: replace.induct)
  case (1 old new)
  then show ?case by simp
next
  case (2 old new c cs)
  show ?case
  proof (cases "old \<noteq> [] \<and> prefix old (c # cs)")
    case True
    with 2 have "set (replace old new (drop (length old) (c # cs)))
        \<subseteq> set (drop (length old) (c # cs)) \<union> set new"
      by simp
    moreover have "set (drop (length old) (c # cs)) \<subseteq> set (c # cs)"
      by (rule set_drop_subset)
    ultimately show ?thesis using True by auto
  next
    case False
    with 2 show ?thesis by auto
  qed
qed

lemma out_name_frame: "out_name (''frame_'' @ rest) = ''frames_upscaled_'' @ replace ''frame_'' ''frames_upscaled_'' rest"
  by (simp add: out_name_def)

lemma digit_not_f: "list_all is_digit i \<Longrightarrow> CHR ''f'' \<notin> set (i @ ''.png'')"
  by (auto simp: list_all_iff is_digit_def)

lemma out_name_index:
  assumes "list_all is_digit i"
  shows "out_name (''frame_'' @ i @ ''.png'') = ''frames_upscaled_'' @ i @ ''.png''"
proof -
  have "out_name (''frame_'' @ i @ ''.png'')
      = ''frames_upscaled_'' @ replace ''frame_'' ''frames_upscaled_'' (i @ ''.png'')"
    by (rule out_name_frame)
  also have "replace ''frame_'' ''frames_upscaled_'' (i @ ''.png'') = i @ ''.png''"
    by (rule replace_no_f [OF digit_not_f [OF assms]])
  finally show ?thesis .
qed

lemma out_name_index_only:
  assumes f: "is_frame_file f" and o: "out_name f = ''frames_upscaled_'' @ i @ ''.png''"
    and d: "list_all is_digit i"
  shows "f = ''frame_'' @ i @ ''.png''"
proof -
  from f obtain rest where r: "f = ''frame_'' @ rest"
    by (auto simp: is_frame_file_def startswith_def prefix_def)
  from o have "''frames_upscaled_'' @ replace ''frame_'' ''frames_upscaled_'' rest
      = ''frames_upscaled_'' @ i @ ''.png''"
    unfolding r out_name_frame .
  then have eq: "replace ''frame_'' ''frames_upscaled_'' rest = i @ ''.png''"
    by (simp only: same_append_eq)
  have "CHR ''f'' \<notin> set rest"
  proof
    assume "CHR ''f'' \<in> set rest"
    from replace_keeps_f [OF this] eq digit_not_f [OF d] show False by simp
  qed
  from replace_no_f [OF this] eq have "rest = i @ ''.png''" by simp
  with r show ?thesis by simp
qed


lemma map_of_key: "map_of fs p = Some n \<Longrightarrow> p \<in> fst ` set fs"
  by (metis domI dom_map_of_conv_image_fst)

lemma imwrite_keys: "fst ` set (imwrite e fs p img) = insert p (fst ` set fs)"
  by (auto simp: imwrite_def AList.dom_update dest: map_of_key
      split: option.splits node.splits)

lemma imwrite_dir: "map_of (imwrite e fs p img) q = Some Dir \<longleftrightarrow> map_of fs q = Some Dir"
  by (auto simp: imwrite_def AList.update_conv' split: option.splits node.splits if_splits)

lemma upscale_loop_keys:
  "upscale_loop e mp sc wd fnames w = (Inr (), w') \<Longrightarrow>
   fst ` set (files w') = fst ` set (files w) \<union> (\<lambda>f. path_join wd (out_name f)) ` set fnames"
proof (induction fnames arbitrary: w)
  case Nil
  then show ?case by simp
next
  case (Cons f fnames)
  from Cons.prems obtain img where
    e: "enhance e mp (imread e (files w) (path_join wd f)) sc = Inr img"
    and r: "upscale_loop e mp sc wd fnames
        (w\<lparr>files := imwrite e (files w) (path_join wd (out_name f)) img\<rparr>) = (Inr (), w')"
    by (auto simp: Let_def split: sum.splits)
  from Cons.IH [OF r] show ?case
    by (simp add: imwrite_keys)
qed

lemma upscale_loop_dir:
  "upscale_loop e mp sc wd fnames w = (Inr (), w') \<Longrightarrow>
   map_of (files w') q = Some Dir \<longleftrightarrow> map_of (files w) q = Some Dir"
proof (induction fnames arbitrary: w)
  case Nil
  then show ?case by simp
next
  case (Cons f fnames)
  from Cons.prems obtain img where
    r: "upscale_loop e mp sc wd fnames
        (w\<lparr>files := imwrite e (files w) (path_join wd (out_name f)) img\<rparr>) = (Inr (), w')"
    by (auto simp: Let_def split: sum.splits)
  from Cons.IH [OF r] show ?case
    by (simp add: imwrite_dir)
qed

lemma in_map_filter:
  "y \<in> set (List.map_filter g xs) \<longleftrightarrow> (\<exists>x \<in> set xs. g x = Some y)"
  by (induction xs) (auto split: option.splits)

lemma listdir_names:
  assumes "listdir fs d = Inr ns"
  shows "set ns = {n. \<exists>p \<in> fst ` set fs. name_in d p = Some n}" and "distinct ns"
    and "map_of fs d = Some Dir"
proof -
  from assms have d: "map_of fs d = Some Dir"
    and n: "ns = remdups (List.map_filter (name_in d) (map fst fs))"
    by (auto simp: listdir_def split: option.splits node.splits)
  show "map_of fs d = Some Dir" by (rule d)
  show "distinct ns" by (simp add: n)
  have "set ns = {n. \<exists>p \<in> set (map fst fs). name_in d p = Some n}"
    unfolding n set_remdups using in_map_filter [of _ "name_in d" "map fst fs"] by blast
  then show "set ns = {n. \<exists>p \<in> fst ` set fs. name_in d p = Some n}"
    by simp
qed

lemma listdir_dir:
  "map_of fs d = Some Dir \<Longrightarrow> \<exists>ns. listdir fs d = Inr ns"
  by (simp add: listdir_def)

lemma name_in_Some:
  "name_in d p = Some n \<Longrightarrow> n \<noteq> [] \<and> CHR ''/'' \<notin> set n \<and> p = d @ ''/'' @ n"
  by (auto simp: name_in_def Let_def prefix_def split: if_splits)

lemma name_in_join:
  assumes "d \<noteq> []" "\<not> endswith d ''/''" "n \<noteq> []" "CHR ''/'' \<notin> set n"
  shows "name_in d (path_join d n) = Some n"
proof -
  from assms have "\<not> startswith n ''/''"
    by (cases n) (auto simp: startswith_def)
  with assms have "path_join d n = d @ ''/'' @ n"
    by (simp add: path_join_def)
  with assms show ?thesis
    by (simp add: name_in_def Let_def)
qed

lemma out_name_plain:
  assumes "is_frame_file f" "CHR ''/'' \<notin> set f"
  shows "out_name f \<noteq> []" and "CHR ''/'' \<notin> set (out_name f)"
    and "prefix ''frames_upscaled_'' (out_name f)"
proof -
  from assms obtain rest where r: "f = ''frame_'' @ rest"
    by (auto simp: is_frame_file_def startswith_def prefix_def)
  show "prefix ''frames_upscaled_'' (out_name f)"
    unfolding r out_name_frame by (rule prefixI) simp
  then show "out_name f \<noteq> []" by auto
  have "set (out_name f) \<subseteq> set f \<union> set ''frames_upscaled_''"
    unfolding out_name_def by (rule replace_set)
  with assms show "CHR ''/'' \<notin> set (out_name f)" by auto
qed


lemma upscale_frames_listing:
  assumes wd: "wd \<noteq> []" "\<not> endswith wd ''/''"
    and l: "listdir (files w) wd = Inr names"
    and r: "upscale_frames_cuda e wd sc m w = (Inr (), w')"
  shows "\<exists>names'. listdir (files w') wd = Inr names'
           \<and> set names' = set names \<union> out_name ` {f \<in> set names. is_frame_file f}"
proof -
  let ?frames = "sort (filter is_frame_file names)"
  from r l obtain mp where
    loop: "upscale_loop e mp sc wd ?frames w = (Inr (), w')"
    by (auto simp: upscale_frames_cuda_def Let_def split: option.splits)
  have fr: "set ?frames = {f \<in> set names. is_frame_file f}"
    by auto
  note ln = listdir_names [OF l]
  from upscale_loop_dir [OF loop, of wd] ln(3) have "map_of (files w') wd = Some Dir"
    by simp
  from listdir_dir [OF this] obtain names' where l': "listdir (files w') wd = Inr names'"
    by blast
  note ln' = listdir_names [OF l']
  have plain: "name_in wd (path_join wd (out_name f)) = Some (out_name f)"
    if "f \<in> set names" "is_frame_file f" for f
  proof -
    from that ln(1) obtain p where "name_in wd p = Some f" by auto
    from name_in_Some [OF this] have "CHR ''/'' \<notin> set f" by simp
    from out_name_plain(1,2) [OF that(2) this] name_in_join [OF wd]
    show ?thesis by blast
  qed
  have "set names' = set names \<union> out_name ` {f \<in> set names. is_frame_file f}"
  proof (intro set_eqI iffI)
    fix n assume "n \<in> set names'"
    with ln'(1) obtain p where p: "p \<in> fst ` set (files w')" "name_in wd p = Some n"
      by auto
    from p(1) upscale_loop_keys [OF loop]
    consider "p \<in> fst ` set (files w)"
      | f where "f \<in> set ?frames" "p = path_join wd (out_name f)"
      by auto
    then show "n \<in> set names \<union> out_name ` {f \<in> set names. is_frame_file f}"
    proof cases
      case 1
      with p(2) ln(1) show ?thesis by auto
    next
      case 2
      with fr have f: "f \<in> set names" "is_frame_file f" by auto
      from plain [OF f] 2 p(2) have "n = out_name f" by simp
      with f show ?thesis by auto
    qed
  next
    fix n assume "n \<in> set names \<union> out_name ` {f \<in> set names. is_frame_file f}"
    then consider "n \<in> set names" | f where "f \<in> set names" "is_frame_file f" "n = out_name f"
      by auto
    then show "n \<in> set names'"
    proof cases
      case 1
      with ln(1) obtain p where "p \<in> fst ` set (files w)" "name_in wd p = Some n" by auto
      with upscale_loop_keys [OF loop] have "\<exists>p \<in> fst ` set (files w'). name_in wd p = Some n"
        by blast
      with ln'(1) show ?thesis by simp
    next
      case 2
      with fr have "path_join wd (out_name f) \<in> fst ` set (files w')"
        using upscale_loop_keys [OF loop] by blast
      with plain [OF 2(1,2)] 2(3) have "\<exists>p \<in> fst ` set (files w'). name_in wd p = Some n"
        by blast
      with ln'(1) show ?thesis by simp
    qed
  qed
  with l' show ?thesis by blast
qed

lemma frame_indices_set:
  "set (frame_indices ns) =
     {i. i \<noteq> [] \<and> list_all is_digit i \<and> ''frame_'' @ i @ ''.png'' \<in> set ns}"
  unfolding frame_indices_def by (auto simp: in_map_filter index_of_Some)

lemma upscaled_indices_set:
  "set (upscaled_indices ns) =
     {i. i \<noteq> [] \<and> list_all is_digit i \<and> ''frames_upscaled_'' @ i @ ''.png'' \<in> set ns}"
  unfolding upscaled_indices_def by (auto simp: in_map_filter index_of_Some)

lemma indices_distinct:
  "distinct ns \<Longrightarrow> distinct (List.map_filter (index_of pre suf) ns)"
  by (induction ns) (auto simp: in_map_filter index_of_Some split: option.splits)

lemma frame_file_index: "is_frame_file (''frame_'' @ i @ ''.png'')"
  by (simp add: is_frame_file_def startswith_def endswith_def suffix_def prefix_def)

lemma out_name_not_frame:
  assumes "is_frame_file f" "CHR ''/'' \<notin> set f"
  shows "out_name f \<noteq> ''frame_'' @ i @ ''.png''"
proof
  assume "out_name f = ''frame_'' @ i @ ''.png''"
  with out_name_plain(3) [OF assms] show False
    by (simp add: prefix_def)
qed

lemma listdir_plain:
  assumes "listdir fs d = Inr ns" "n \<in> set ns"
  shows "n \<noteq> []" and "CHR ''/'' \<notin> set n"
proof -
  from listdir_names(1) [OF assms(1)] assms(2) obtain p where "name_in d p = Some n"
    by auto
  from name_in_Some [OF this] show "n \<noteq> []" and "CHR ''/'' \<notin> set n"
    by simp_all
qed

lemma imread_imwrite_other:
  "p \<noteq> q \<Longrightarrow> imread e (imwrite e fs p img) q = imread e fs q"
  by (simp add: imread_def imwrite_def AList.update_conv' split: option.splits node.splits)

lemma path_join_plain:
  assumes "d \<noteq> []" "\<not> endswith d ''/''" "n \<noteq> []" "CHR ''/'' \<notin> set n"
  shows "path_join d n = d @ ''/'' @ n"
proof -
  from assms have "\<not> startswith n ''/''"
    by (cases n) (auto simp: startswith_def)
  with assms show ?thesis
    by (simp add: path_join_def)
qed

lemma upscaled_not_frame: "''frames_upscaled_'' @ a \<noteq> ''frame_'' @ b"
  by simp

lemma out_path_not_in_path:
  assumes wd: "wd \<noteq> []" "\<not> endswith wd ''/''"
    and f: "is_frame_file f" "CHR ''/'' \<notin> set f"
    and g: "is_frame_file g" "CHR ''/'' \<notin> set g"
  shows "path_join wd (out_name f) \<noteq> path_join wd g"
proof
  assume eq: "path_join wd (out_name f) = path_join wd g"
  from g(1) have "prefix ''frame_'' g"
    by (simp add: is_frame_file_def startswith_def)
  then obtain b where b: "g = ''frame_'' @ b"
    by (rule prefixE)
  then have "g \<noteq> []" by simp
  from out_name_plain(3) [OF f] obtain a where a: "out_name f = ''frames_upscaled_'' @ a"
    by (rule prefixE)
  from eq path_join_plain [OF wd out_name_plain(1,2) [OF f]]
    path_join_plain [OF wd \<open>g \<noteq> []\<close> g(2)]
  have "wd @ ''/'' @ out_name f = wd @ ''/'' @ g" by simp
  then have "out_name f = g" by simp
  with a b upscaled_not_frame [of a b] show False by simp
qed

lemma upscale_loop_succeeds:
  assumes wd: "wd \<noteq> []" "\<not> endswith wd ''/''"
    and plain: "\<And>f. f \<in> set fnames \<Longrightarrow> is_frame_file f \<and> CHR ''/'' \<notin> set f"
    and ok: "\<And>f. f \<in> set fnames \<Longrightarrow> enhances e mp fs0 wd sc f"
    and same: "\<And>f. f \<in> set fnames \<Longrightarrow>
      imread e (files w) (path_join wd f) = imread e fs0 (path_join wd f)"
  shows "\<exists>w'. upscale_loop e mp sc wd fnames w = (Inr (), w')"
  using plain ok same
proof (induction fnames arbitrary: w)
  case Nil
  then show ?case by simp
next
  case (Cons f fnames)
  from Cons.prems(2) [of f] Cons.prems(3) [of f]
  obtain img where img: "enhance e mp (imread e (files w) (path_join wd f)) sc = Inr img"
    by (auto simp: enhances_def split: sum.splits)
  let ?w = "w\<lparr>files := imwrite e (files w) (path_join wd (out_name f)) img\<rparr>"
  have "\<exists>w'. upscale_loop e mp sc wd fnames ?w = (Inr (), w')"
  proof (rule Cons.IH)
    fix g assume g: "g \<in> set fnames"
    then show "is_frame_file g \<and> CHR ''/'' \<notin> set g"
      using Cons.prems(1) by simp
    from g show "enhances e mp fs0 wd sc g"
      using Cons.prems(2) by simp
    from Cons.prems(1) [of f] Cons.prems(1) [of g] g
    have "path_join wd (out_name f) \<noteq> path_join wd g"
      using out_path_not_in_path [OF wd] by simp
    then show "imread e (files ?w) (path_join wd g) = imread e fs0 (path_join wd g)"
      using Cons.prems(3) [of g] g by (simp add: imread_imwrite_other)
  qed
  with img show ?case by (simp add: Let_def)
qed

lemma upscale_frames_succeeds:
  assumes wd: "wd \<noteq> []" "\<not> endswith wd ''/''"
    and l: "listdir (files w) wd = Inr names"
    and lw: "load_weights e (files w) (WEIGHTS_DIR @ ''/'' @ m @ ''.pth'') = None"
    and ok: "list_all (enhances e (WEIGHTS_DIR @ ''/'' @ m @ ''.pth'') (files w) wd sc)
               (filter is_frame_file names)"
  shows "\<exists>w'. upscale_frames_cuda e wd sc m w = (Inr (), w')"
proof -
  let ?mp = "WEIGHTS_DIR @ ''/'' @ m @ ''.pth''"
  have "\<exists>w'. upscale_loop e ?mp sc wd (sort (filter is_frame_file names)) w = (Inr (), w')"
  proof (rule upscale_loop_succeeds [OF wd, where ?fs0.0 = "files w"])
    fix f assume "f \<in> set (sort (filter is_frame_file names))"
    then have f: "f \<in> set names" "is_frame_file f" by auto
    from listdir_plain(2) [OF l f(1)] f(2)
    show "is_frame_file f \<and> CHR ''/'' \<notin> set f" by simp
    from ok f show "enhances e ?mp (files w) wd sc f"
      by (simp add: list_all_iff)
    show "imread e (files w) (path_join wd f) = imread e (files w) (path_join wd f)" ..
  qed
  with l lw show ?thesis
    by (simp add: upscale_frames_cuda_def Let_def)
qed

text \<open>
  Claim C2. In a working directory that holds no upscaled frame yet, a run of
  \<^verbatim>\<open>upscale_frames_cuda\<close> that returns leaves an upscaled frame for exactly the
  indices of the frame files: the two sets of indices are equal, no index occurs twice,
  there are as many upscaled frames as frames, and the frames themselves stay. The run
  returns when the weights load and the image library enhances every frame file.
\<close>

theorem upscaled_frames_match:
  assumes "work_dir \<noteq> []" and "\<not> endswith work_dir ''/''"
    and "listdir (files w) work_dir = Inr names"
    and "upscaled_indices names = []"
  shows "(load_weights e (files w) (WEIGHTS_DIR @ ''/'' @ model_name @ ''.pth'') = None
          \<and> list_all (enhances e (WEIGHTS_DIR @ ''/'' @ model_name @ ''.pth'') (files w)
                        work_dir scale) (filter is_frame_file names)
          \<longrightarrow> (\<exists>w'. upscale_frames_cuda e work_dir scale model_name w = (Inr (), w')))
       \<and> (upscale_frames_cuda e work_dir scale model_name w = (Inr (), w')
          \<longrightarrow> (\<exists>names'. listdir (files w') work_dir = Inr names'
                \<and> set (upscaled_indices names') = set (frame_indices names)
                \<and> distinct (upscaled_indices names')
                \<and> length (upscaled_indices names') = length (frame_indices names)
                \<and> set (frame_indices names') = set (frame_indices names)))"
proof (intro conjI impI)
  assume "load_weights e (files w) (WEIGHTS_DIR @ ''/'' @ model_name @ ''.pth'') = None
          \<and> list_all (enhances e (WEIGHTS_DIR @ ''/'' @ model_name @ ''.pth'') (files w)
                        work_dir scale) (filter is_frame_file names)"
  with upscale_frames_succeeds [OF assms(1,2,3)]
  show "\<exists>w'. upscale_frames_cuda e work_dir scale model_name w = (Inr (), w')"
    by blast
next
  assume r: "upscale_frames_cuda e work_dir scale model_name w = (Inr (), w')"
  from upscale_frames_listing [OF assms(1,2,3) r] obtain names' where
    l': "listdir (files w') work_dir = Inr names'"
    and s: "set names' = set names \<union> out_name ` {f \<in> set names. is_frame_file f}"
    by blast
  have fresh: "''frames_upscaled_'' @ i @ ''.png'' \<notin> set names"
    if "i \<noteq> []" "list_all is_digit i" for i
  proof
    assume "''frames_upscaled_'' @ i @ ''.png'' \<in> set names"
    with that have "i \<in> set (upscaled_indices names)"
      by (simp add: upscaled_indices_set)
    with assms(4) show False by simp
  qed
  have up: "set (upscaled_indices names') = set (frame_indices names)"
  proof (intro set_eqI iffI)
    fix i assume "i \<in> set (upscaled_indices names')"
    then have i: "i \<noteq> []" "list_all is_digit i"
      and m: "''frames_upscaled_'' @ i @ ''.png'' \<in> set names'"
      by (simp_all add: upscaled_indices_set)
    from m have "''frames_upscaled_'' @ i @ ''.png''
        \<in> set names \<union> out_name ` {f \<in> set names. is_frame_file f}"
      unfolding s .
    with fresh [OF i] have "''frames_upscaled_'' @ i @ ''.png''
        \<in> out_name ` {f \<in> set names. is_frame_file f}"
      by blast
    then obtain f where f0: "f \<in> {f \<in> set names. is_frame_file f}"
      and o0: "''frames_upscaled_'' @ i @ ''.png'' = out_name f"
      by (rule imageE)
    from f0 have f: "f \<in> set names" "is_frame_file f"
      by simp_all
    from o0 have o: "out_name f = ''frames_upscaled_'' @ i @ ''.png''"
      by (rule sym)
    from out_name_index_only [OF f(2) o i(2)] f(1)
    have "''frame_'' @ i @ ''.png'' \<in> set names"
      by (simp only:)
    with i show "i \<in> set (frame_indices names)"
      by (simp add: frame_indices_set)
  next
    fix i assume "i \<in> set (frame_indices names)"
    then have i: "i \<noteq> []" "list_all is_digit i"
      and m: "''frame_'' @ i @ ''.png'' \<in> set names"
      by (simp_all add: frame_indices_set)
    from m frame_file_index [of i]
    have "''frame_'' @ i @ ''.png'' \<in> {f \<in> set names. is_frame_file f}"
      by blast
    then have "out_name (''frame_'' @ i @ ''.png'')
        \<in> out_name ` {f \<in> set names. is_frame_file f}"
      by (rule imageI)
    then have "out_name (''frame_'' @ i @ ''.png'') \<in> set names'"
      unfolding s by (rule UnI2)
    then have "''frames_upscaled_'' @ i @ ''.png'' \<in> set names'"
      unfolding out_name_index [OF i(2)] .
    with i show "i \<in> set (upscaled_indices names')"
      by (simp add: upscaled_indices_set)
  qed
  have fr: "set (frame_indices names') = set (frame_indices names)"
  proof (intro set_eqI iffI)
    fix i assume "i \<in> set (frame_indices names')"
    then have i: "i \<noteq> []" "list_all is_digit i"
      and m: "''frame_'' @ i @ ''.png'' \<in> set names'"
      by (simp_all add: frame_indices_set)
    have "''frame_'' @ i @ ''.png'' \<in> set names"
    proof (rule ccontr)
      assume "''frame_'' @ i @ ''.png'' \<notin> set names"
      moreover from m have "''frame_'' @ i @ ''.png''
          \<in> set names \<union> out_name ` {f \<in> set names. is_frame_file f}"
        unfolding s .
      ultimately have "''frame_'' @ i @ ''.png''
          \<in> out_name ` {f \<in> set names. is_frame_file f}"
        by blast
      then obtain f where f0: "f \<in> {f \<in> set names. is_frame_file f}"
        and o0: "''frame_'' @ i @ ''.png'' = out_name f"
        by (rule imageE)
      from f0 have f: "f \<in> set names" "is_frame_file f"
        by simp_all
      from o0 have o: "out_name f = ''frame_'' @ i @ ''.png''"
        by (rule sym)
      from out_name_not_frame [OF f(2) listdir_plain(2) [OF assms(3) f(1)]] o
      show False by blast
    qed
    with i show "i \<in> set (frame_indices names)"
      by (simp add: frame_indices_set)
  next
    fix i assume "i \<in> set (frame_indices names)"
    then have i: "i \<noteq> []" "list_all is_digit i"
      and m: "''frame_'' @ i @ ''.png'' \<in> set names"
      by (simp_all add: frame_indices_set)
    from m have "''frame_'' @ i @ ''.png'' \<in> set names'"
      unfolding s by blast
    with i show "i \<in> set (frame_indices names')"
      by (simp add: frame_indices_set)
  qed
  have d': "distinct (upscaled_indices names')"
    unfolding upscaled_indices_def
    by (rule indices_distinct [OF listdir_names(2) [OF l']])
  have d: "distinct (frame_indices names)"
    unfolding frame_indices_def
    by (rule indices_distinct [OF listdir_names(2) [OF assms(3)]])
  have "length (upscaled_indices names') = card (set (upscaled_indices names'))"
    by (rule distinct_card [OF d', symmetric])
  also have "\<dots> = card (set (frame_indices names))"
    by (simp only: up)
  also have "\<dots> = length (frame_indices names)"
    by (rule distinct_card [OF d])
  finally have "length (upscaled_indices names') = length (frame_indices names)" .
  with l' up d' fr
  show "\<exists>names'. listdir (files w') work_dir = Inr names'
          \<and> set (upscaled_indices names') = set (frame_indices names)
          \<and> distinct (upscaled_indices names')
          \<and> length (upscaled_indices names') = length (frame_indices names)
          \<and> set (frame_indices names') = set (frame_indices names)"
    by blast
qed

text \<open>
  A run on the directory with two extracted frames: both are enhanced, and the upscaled
  frames have the indices \<^verbatim>\<open>00000001\<close> and \<^verbatim>\<open>00000002\<close>.
\<close>

theorem upscaled_frames_match_witness:
  "listdir (files extracted_world) ''/tmp/job-1''
     = Inr [''src.mp4'', ''frame_00000001.png'', ''frame_00000002.png'']
   \<and> upscaled_indices [''src.mp4'', ''frame_00000001.png'', ''frame_00000002.png''] = []
   \<and> frame_indices [''src.mp4'', ''frame_00000001.png'', ''frame_00000002.png'']
       = [''00000001'', ''00000002'']
   \<and> (\<exists>w'. upscale_frames_cuda (sample_env sample_exec) ''/tmp/job-1'' (Fin (3 / 2))
               ''realesr-animevideov3'' extracted_world = (Inr (), w')
          \<and> (\<exists>names'. listdir (files w') ''/tmp/job-1'' = Inr names'
                \<and> set (upscaled_indices names') = {''00000001'', ''00000002''}
                \<and> distinct (upscaled_indices names')
                \<and> length (upscaled_indices names') = 2))"
proof -
  let ?wd = "''/tmp/job-1''"
  let ?names = "[''src.mp4'', ''frame_00000001.png'', ''frame_00000002.png'']"
  let ?e = "sample_env sample_exec"
  have wd: "?wd \<noteq> []" "\<not> endswith ?wd ''/''"
    by (simp_all add: endswith_def suffix_to_prefix)
  have l: "listdir (files extracted_world) ?wd = Inr ?names"
    by (simp add: extracted_world_def listdir_def name_in_def)
  have u: "upscaled_indices ?names = []"
    by (simp add: upscaled_indices_def index_of_def)
  have f: "frame_indices ?names = [''00000001'', ''00000002'']"
    by (simp add: frame_indices_def index_of_def is_digit_def)
  have ff: "filter is_frame_file ?names = [''frame_00000001.png'', ''frame_00000002.png'']"
    by (simp add: is_frame_file_def startswith_def endswith_def suffix_to_prefix)
  have ok: "load_weights ?e (files extracted_world)
        (WEIGHTS_DIR @ ''/'' @ ''realesr-animevideov3'' @ ''.pth'') = None
      \<and> list_all (enhances ?e (WEIGHTS_DIR @ ''/'' @ ''realesr-animevideov3'' @ ''.pth'')
                    (files extracted_world) ?wd (Fin (3 / 2))) (filter is_frame_file ?names)"
    unfolding ff
    by (simp add: sample_env_def enhances_def imread_def extracted_world_def path_join_def
        startswith_def endswith_def suffix_to_prefix)
  note t = upscaled_frames_match [OF wd l u, of ?e "''realesr-animevideov3''" "Fin (3 / 2)"]
  from t ok obtain w' where
    r: "upscale_frames_cuda ?e ?wd (Fin (3 / 2)) ''realesr-animevideov3'' extracted_world
          = (Inr (), w')"
    by blast
  from t [of w'] r obtain names' where
    n: "listdir (files w') ?wd = Inr names'"
      "set (upscaled_indices names') = set (frame_indices ?names)"
      "distinct (upscaled_indices names')"
      "length (upscaled_indices names') = length (frame_indices ?names)"
    by blast
  from n(2) have n2: "set (upscaled_indices names') = {''00000001'', ''00000002''}"
    unfolding f by simp
  from n(4) have n4: "length (upscaled_indices names') = 2"
    unfolding f by simp
  from l u f r n(1) n2 n(3) n4 show ?thesis by blast
qed

section \<open>Runs of the handler on the sample environment\<close>

lemmas model_defs =
  handler_def handler_try_def handler_except_def handler_finally_def process_video_def
  upscale_video_def run_stages_def out_fps_of_def upscale_frames_cuda_def
  get_video_fps_def get_video_fps_try_def fps_of_pair_def check_output_def run_def spawn_def
  work_dir_of_def tmp_path_of_def model_of_def crf_of_def preset_of_def or_else_def truthy_def
  resolve_scale_def scale_of_target_def DEFAULT_SCALE_def DEFAULT_CRF_def DEFAULT_PRESET_def
  curl_cmd_def extract_cmd_def encode_cmd_def remux_cmd_def fps_cmd_def
  path_join_def startswith_def endswith_def suffix_to_prefix
  isfile_def missing_or_empty_def makedirs_def os_rename_def os_remove_def read_file_def
  listdir_def name_in_def imread_def imwrite_def is_frame_file_def out_name_def
  WEIGHTS_DIR_def strip_def py_isspace_def request_def
  read_options_def optional_float_def py_float_of_def py_int_of_def truediv_def

lemma str_int_values:
  "str_int 20 = ''20''" "str_int 22 = ''22''" "str_int 1 = ''1''"
  by code_simp+

text \<open>
  Claim C9. A job on the local file \<^verbatim>\<open>/data/in.mp4\<close>, evaluated: the job succeeds,
  and the file is no longer at its path. \<^verbatim>\<open>upscale_video\<close> has renamed it to the
  \<^verbatim>\<open>src.mp4\<close> of the working directory, although the \<^verbatim>\<open>finally\<close> clause of
  \<^verbatim>\<open>handler\<close> takes care to remove downloads only. In the sample environment
  \<^verbatim>\<open>/data\<close> and \<^verbatim>\<open>/tmp\<close> are on one file system, so the renaming succeeds.
\<close>

theorem local_source_is_moved:
  "isfile [(''/data/in.mp4'', File ''video'')] ''/data/in.mp4''
   \<and> fst (handler (sample_env sample_exec) (request None (Some ''/data/in.mp4''))
          \<lparr>files = [(''/data/in.mp4'', File ''video'')], spawned = []\<rparr>)
       = Inr (Success ''base64:movie''
           \<lparr>param_scale = Fin (3 / 2), param_model = ''realesr-animevideov3'',
            param_target_resolution = None, param_crf = 20,
            param_preset = ''medium'', param_output_fps = None\<rparr>)
   \<and> files (snd (handler (sample_env sample_exec) (request None (Some ''/data/in.mp4''))
          \<lparr>files = [(''/data/in.mp4'', File ''video'')], spawned = []\<rparr>))
       = [(''/tmp/job-1'', Dir), (''/tmp/job-1/src.mp4'', File ''video''),
          (''/tmp/job-1/frame_00000001.png'', File ''one''),
          (''/tmp/job-1/frame_00000002.png'', File ''two''),
          (''/tmp/job-1/frames_upscaled_00000001.png'', File ''upscaled one''),
          (''/tmp/job-1/frames_upscaled_00000002.png'', File ''upscaled two''),
          (''/tmp/job-1/upscaled_noaudio.mp4'', File ''movie''),
          (''/tmp/job-1/upscaled_with_audio.mp4'', File ''movie'')]
   \<and> \<not> isfile (files (snd (handler (sample_env sample_exec)
          (request None (Some ''/data/in.mp4''))
          \<lparr>files = [(''/data/in.mp4'', File ''video'')], spawned = []\<rparr>))) ''/data/in.mp4''"
  by (simp add: model_defs sample_defs str_int_values Let_def)

text \<open>
  Claim C4, as stated, fails. A job on a downloaded video, evaluated: it succeeds, and when the handler has returned
  the working directory \<^verbatim>\<open>/tmp/job-1\<close> is still there with the source copy, the
  frames, the upscaled frames and both videos. A job whose download is no video fails at
  the extraction, and its working directory is still there with the source copy.
\<close>

theorem work_dir_left_counterexample:
  "fst (handler (sample_env sample_exec) (request (Some ''https://host.example/a.mp4'') None)
          empty_world)
       = Inr (Success ''base64:movie''
           \<lparr>param_scale = Fin (3 / 2), param_model = ''realesr-animevideov3'',
            param_target_resolution = None, param_crf = 20,
            param_preset = ''medium'', param_output_fps = None\<rparr>)
   \<and> files (snd (handler (sample_env sample_exec)
          (request (Some ''https://host.example/a.mp4'') None) empty_world))
       = [(''/tmp/job-1'', Dir), (''/tmp/job-1/src.mp4'', File ''video''),
          (''/tmp/job-1/frame_00000001.png'', File ''one''),
          (''/tmp/job-1/frame_00000002.png'', File ''two''),
          (''/tmp/job-1/frames_upscaled_00000001.png'', File ''upscaled one''),
          (''/tmp/job-1/frames_upscaled_00000002.png'', File ''upscaled two''),
          (''/tmp/job-1/upscaled_noaudio.mp4'', File ''movie''),
          (''/tmp/job-1/upscaled_with_audio.mp4'', File ''movie'')]
   \<and> fst (handler (sample_env sample_exec) (request (Some ''https://host.example/text.mp4'') None)
          empty_world)
       = Inr (Failure (''Upscale failed: '' @ str_CalledProcessError (sample_env sample_exec) 1
           [''ffmpeg'', ''-y'', ''-i'', ''/tmp/job-1/src.mp4'', ''-q:v'', ''1'',
            ''/tmp/job-1/frame_%08d.png'']))
   \<and> files (snd (handler (sample_env sample_exec)
          (request (Some ''https://host.example/text.mp4'') None) empty_world))
       = [(''/tmp/job-1'', Dir), (''/tmp/job-1/src.mp4'', File ''plain text'')]"
  by (simp add: model_defs sample_defs str_int_values Let_def)

section \<open>Properties of the handler\<close>

lemma run_result:
  "run e cmd w =
     (if returncode (exec e cmd (files w)) \<noteq> 0
      then Inl (CalledProcessError (returncode (exec e cmd (files w))) cmd) else Inr (),
      \<lparr>files = files_after (exec e cmd (files w)),
       spawned = spawned w @ [(CheckCall, cmd, returncode (exec e cmd (files w)))]\<rparr>)"
  by (simp add: run_def spawn_def Let_def)

lemma handler_finally_spawned: "spawned (handler_finally ji tmp w) = spawned w"
  by (simp add: handler_finally_def split: sum.splits)

lemma handler_finally_files:
  "files (handler_finally ji tmp w) =
     (if truthy (input_video_url ji) \<and> isfile (files w) tmp
      then AList.delete tmp (files w) else files w)"
  by (auto simp: handler_finally_def os_remove_def isfile_def
      split: sum.splits option.splits node.splits)






subsection \<open>Failures of the stages\<close>

lemma tracked_same: "spawned w1 = spawned w \<Longrightarrow> tracked w r w1"
  by (simp add: tracked_def split: sum.splits)

lemma tracked_Inr: "tracked w (Inr v) w1 \<longleftrightarrow> failures (spawned w1) = failures (spawned w)"
  by (simp add: tracked_def)

lemma tracked_Inl_cast: "tracked w (Inl x :: exn + 'a) w1 \<Longrightarrow> tracked w (Inl x :: exn + 'b) w1"
  by (simp add: tracked_def)

lemma tracked_then:
  "tracked w (Inr v) w1 \<Longrightarrow> tracked w1 r w2 \<Longrightarrow> tracked w r w2"
  by (simp add: tracked_def split: sum.splits)

lemma tracked_files [simp]: "tracked (w\<lparr>files := fs\<rparr>) r w1 = tracked w r w1"
  by (cases r) (simp_all add: tracked_def)

lemma run_tracked: "run e cmd w = (r, w1) \<Longrightarrow> tracked w r w1"
  by (auto simp: run_result tracked_def failures_def split: if_splits)

lemma check_output_failures:
  "check_output e cmd w = (r, w1) \<Longrightarrow> failures (spawned w1) = failures (spawned w)"
  by (auto simp: check_output_def spawn_def Let_def failures_def split: if_splits)

lemma get_video_fps_tracked:
  assumes "get_video_fps e path w = (r, w1)"
  shows "failures (spawned w1) = failures (spawned w)" and "\<exists>v. r = Inr v"
proof -
  obtain r0 w0 where c: "check_output e (fps_cmd path) w = (r0, w0)"
    by (cases "check_output e (fps_cmd path) w")
  with assms have "w1 = w0"
    by (auto simp: get_video_fps_def get_video_fps_try_def split: sum.splits prod.splits)
  with check_output_failures [OF c] show "failures (spawned w1) = failures (spawned w)"
    by simp
  from assms show "\<exists>v. r = Inr v"
    by (auto simp: get_video_fps_def split: sum.splits prod.splits)
qed

lemma out_fps_of_tracked:
  assumes "out_fps_of e fps src w = (r, w1)"
  shows "failures (spawned w1) = failures (spawned w)" and "\<exists>v. r = Inr v"
  using assms get_video_fps_tracked [of e src w r w1]
  by (auto simp: out_fps_of_def split: option.splits if_splits)

lemma upscale_loop_spawned:
  "upscale_loop e mp sc wd fnames w = (r, w1) \<Longrightarrow> spawned w1 = spawned w"
proof (induction fnames arbitrary: w)
  case Nil
  then show ?case by simp
next
  case (Cons f fnames)
  show ?case
  proof (cases "enhance e mp (imread e (files w) (path_join wd f)) sc")
    case (Inl x)
    with Cons.prems show ?thesis by (simp add: Let_def)
  next
    case (Inr img)
    with Cons.prems have "upscale_loop e mp sc wd fnames
        (w\<lparr>files := imwrite e (files w) (path_join wd (out_name f)) img\<rparr>) = (r, w1)"
      by (simp add: Let_def)
    from Cons.IH [OF this] show ?thesis by simp
  qed
qed

lemma upscale_frames_cuda_spawned:
  "upscale_frames_cuda e wd sc m w = (r, w1) \<Longrightarrow> spawned w1 = spawned w"
  by (auto simp: upscale_frames_cuda_def Let_def upscale_loop_spawned
      split: option.splits sum.splits)

lemma run_stages_tracked:
  assumes "run_stages e wd sc m fps crf preset w = (r, w')"
  shows "tracked w r w'"
proof -
  let ?src = "path_join wd ''src.mp4''"
  let ?c1 = "extract_cmd ?src (path_join wd ''frame_%08d.png'')"
  let ?c3 = "encode_cmd e fps (path_join wd ''frames_upscaled_%08d.png'') crf preset
      (path_join wd ''upscaled_noaudio.mp4'')"
  let ?c4 = "remux_cmd (path_join wd ''upscaled_noaudio.mp4'') ?src
      (path_join wd ''upscaled_with_audio.mp4'')"
  obtain r1 w1 where s1: "run e ?c1 w = (r1, w1)" by (cases "run e ?c1 w")
  note t1 = run_tracked [OF s1]
  show ?thesis
  proof (cases r1)
    case (Inl x)
    with assms s1 have "r = Inl x" "w' = w1"
      by (simp_all add: run_stages_def Let_def)
    with t1 Inl show ?thesis by (simp add: tracked_def)
  next
    case Inr1: (Inr u1)
    obtain r2 w2 where s2: "upscale_frames_cuda e wd sc m w1 = (r2, w2)"
      by (cases "upscale_frames_cuda e wd sc m w1")
    note t2 = tracked_same [OF upscale_frames_cuda_spawned [OF s2], of r2]
    show ?thesis
    proof (cases r2)
      case (Inl x)
      with assms s1 s2 Inr1 have "r = Inl x" "w' = w2"
        by (simp_all add: run_stages_def Let_def)
      with t1 t2 Inr1 Inl show ?thesis
        by (simp add: tracked_def)
    next
      case Inr2: (Inr u2)
      obtain r3 w3 where s3: "run e ?c3 w2 = (r3, w3)" by (cases "run e ?c3 w2")
      note t3 = run_tracked [OF s3]
      show ?thesis
      proof (cases r3)
        case (Inl x)
        with assms s1 s2 s3 Inr1 Inr2 have "r = Inl x" "w' = w3"
          by (simp_all add: run_stages_def Let_def)
        with t1 t2 t3 Inr1 Inr2 Inl show ?thesis
          by (simp add: tracked_def)
      next
        case Inr3: (Inr u3)
        obtain r4 w4 where s4: "run e ?c4 w3 = (r4, w4)" by (cases "run e ?c4 w3")
        note t4 = run_tracked [OF s4]
        from assms s1 s2 s3 s4 Inr1 Inr2 Inr3
        have "(case r4 of Inl x \<Rightarrow> r = Inl x | Inr u \<Rightarrow> r = Inr (path_join wd ''upscaled_with_audio.mp4''))
            \<and> w' = w4"
          by (simp add: run_stages_def Let_def split: sum.splits)
        with t1 t2 t3 t4 Inr1 Inr2 Inr3 show ?thesis
          by (auto simp: tracked_def split: sum.splits)
      qed
    qed
  qed
qed

lemma upscale_video_tracked:
  assumes "upscale_video e input sc m fps crf preset w = (r, w')"
  shows "tracked w r w'"
proof -
  let ?wd = "work_dir_of e"
  let ?src = "path_join ?wd ''src.mp4''"
  show ?thesis
  proof (cases "makedirs (files w) ?wd")
    case (Inl x)
    with assms have "w' = w" by (simp add: upscale_video_def Let_def)
    then show ?thesis by (simp add: tracked_same)
  next
    case (Inr fs1)
    show ?thesis
    proof (cases "if input \<noteq> ?src then os_rename e fs1 input ?src else Inr fs1")
      case (Inl x)
      with assms Inr have "w' = w\<lparr>files := fs1\<rparr>"
        by (simp add: upscale_video_def Let_def)
      then show ?thesis by (simp add: tracked_same)
    next
      case Inr2: (Inr fs2)
      obtain r3 w3 where s3: "out_fps_of e fps ?src (w\<lparr>files := fs2\<rparr>) = (r3, w3)"
        by (cases "out_fps_of e fps ?src (w\<lparr>files := fs2\<rparr>)")
      from out_fps_of_tracked [OF s3] obtain v where
        v: "r3 = Inr v" and f3: "failures (spawned w3) = failures (spawned w)"
        by auto
      from assms Inr Inr2 s3 v have "run_stages e ?wd sc m v crf preset w3 = (r, w')"
        by (simp add: upscale_video_def Let_def)
      from run_stages_tracked [OF this] f3 show ?thesis
        by (simp add: tracked_def split: sum.splits)
    qed
  qed
qed

lemma process_video_tracked:
  assumes "process_video e ji opts path w = (r, w')"
  shows "tracked w r w'"
proof (cases "resolve_scale (opt_scale opts) (input_target_resolution ji)")
  case (Inl x)
  with assms have "w' = w" by (simp add: process_video_def)
  then show ?thesis by (simp add: tracked_same)
next
  case (Inr sc)
  obtain r1 w1 where s1: "upscale_video e path sc (model_of e ji) (opt_output_fps opts)
      (opt_crf opts) (preset_of ji) w = (r1, w1)"
    by (cases "upscale_video e path sc (model_of e ji) (opt_output_fps opts)
      (opt_crf opts) (preset_of ji) w")
  note t1 = upscale_video_tracked [OF s1]
  show ?thesis
  proof (cases r1)
    case (Inl x)
    with assms Inr s1 have "r = Inl x" "w' = w1"
      by (simp_all add: process_video_def)
    with t1 Inl show ?thesis by (simp add: tracked_def)
  next
    case Inr1: (Inr out_path)
    with assms Inr s1 have "w' = w1" "\<forall>rc cmd. r \<noteq> Inl (CalledProcessError rc cmd)"
      by (auto simp: process_video_def read_file_def split: sum.splits option.splits node.splits)
    with t1 Inr1 show ?thesis
      by (auto simp: tracked_def split: sum.splits)
  qed
qed

lemma handler_try_tracked:
  assumes "handler_try e ji opts tmp w = (r, w')"
  shows "tracked w r w'"
proof (cases "truthy (input_video_url ji)")
  case True
  let ?cmd = "curl_cmd (or_else (input_video_url ji) []) tmp"
  obtain r1 w1 where s1: "run e ?cmd w = (r1, w1)" by (cases "run e ?cmd w")
  note t1 = run_tracked [OF s1]
  show ?thesis
  proof (cases r1)
    case (Inl x)
    with assms True s1 have "r = Inl x" "w' = w1"
      by (simp_all add: handler_try_def)
    with t1 Inl show ?thesis by (simp add: tracked_def)
  next
    case (Inr u)
    show ?thesis
    proof (cases "missing_or_empty (files w1) tmp")
      case True
      with assms \<open>truthy (input_video_url ji)\<close> s1 Inr
      have "r = Inr (Failure ''Download failed or empty file.'')" "w' = w1"
        by (simp_all add: handler_try_def)
      with t1 Inr show ?thesis by (simp add: tracked_def)
    next
      case False
      with assms \<open>truthy (input_video_url ji)\<close> s1 Inr
      have "process_video e ji opts tmp w1 = (r, w')"
        by (simp add: handler_try_def)
      from tracked_then [OF _ process_video_tracked [OF this]] t1 Inr
      show ?thesis by simp
    qed
  qed
next
  case False
  show ?thesis
  proof (cases "isfile (files w) (or_else (input_file_path ji) [])")
    case True
    with assms False have "process_video e ji opts (or_else (input_file_path ji) []) w = (r, w')"
      by (simp add: handler_try_def Let_def)
    from process_video_tracked [OF this] show ?thesis .
  next
    case isf: False
    with assms False have "w' = w"
      by (simp add: handler_try_def Let_def)
    then show ?thesis by (simp add: tracked_same)
  qed
qed

lemma failed_call_in_failures:
  "(CheckCall, cmd, rc) \<in> set entries \<Longrightarrow> rc \<noteq> 0 \<Longrightarrow> (cmd, rc) \<in> set (failures entries)"
  by (force simp: failures_def)

lemma handler_reports_failure:
  assumes "spawned w = []" and "handler e ji w = (r, w')"
    and "(CheckCall, cmd, rc) \<in> set (spawned w')" and "rc \<noteq> 0"
  shows "r = Inr (Failure (''Upscale failed: '' @ str_CalledProcessError e rc cmd))"
proof -
  have "\<exists>opts. read_options e ji = Inr opts"
  proof (cases "read_options e ji")
    case (Inl x)
    with assms(2) have "w' = w" by (simp add: handler_def)
    with assms(1,3) show ?thesis by simp
  next
    case (Inr opts)
    then show ?thesis by simp
  qed
  then obtain opts where o: "read_options e ji = Inr opts" ..
  have src: "truthy (input_video_url ji) \<or> truthy (input_file_path ji)"
  proof (rule ccontr)
    assume "\<not> ?thesis"
    with assms(2) o have "w' = w" by (simp add: handler_def)
    with assms(1,3) show False by simp
  qed
  obtain r0 w0 where t: "handler_try e ji opts (tmp_path_of e) w = (r0, w0)"
    by (cases "handler_try e ji opts (tmp_path_of e) w")
  with assms(2) o src have r: "r = handler_except e r0"
    and w': "w' = handler_finally ji (tmp_path_of e) w0"
    by (simp_all add: handler_def Let_def)
  from w' have "spawned w' = spawned w0"
    by (simp add: handler_finally_spawned)
  with failed_call_in_failures [OF assms(3,4)]
  have m: "(cmd, rc) \<in> set (failures (spawned w0))" by simp
  from assms(1) have "failures (spawned w) = []"
    by (simp add: failures_def)
  with handler_try_tracked [OF t] m have "r0 = Inl (CalledProcessError rc cmd)"
    by (auto simp: tracked_def split: sum.splits)
  with r show ?thesis
    by (simp add: handler_except_def)
qed

subsection \<open>What the programs print on their standard error\<close>

lemma with_stderr_fields [simp]:
  "py_float (with_stderr g e) = py_float e"
  "py_int (with_stderr g e) = py_int e"
  "int_to_float (with_stderr g e) = int_to_float e"
  "float_div (with_stderr g e) = float_div e"
  "crosses_devices (with_stderr g e) = crosses_devices e"
  "str_float (with_stderr g e) = str_float e"
  "signal_repr (with_stderr g e) = signal_repr e"
  "uuid4_hex (with_stderr g e) = uuid4_hex e"
  "uuid4_str (with_stderr g e) = uuid4_str e"
  "b64encode (with_stderr g e) = b64encode e"
  "DEFAULT_MODEL (with_stderr g e) = DEFAULT_MODEL e"
  "load_weights (with_stderr g e) = load_weights e"
  "decode_image (with_stderr g e) = decode_image e"
  "enhance (with_stderr g e) = enhance e"
  "encode_image (with_stderr g e) = encode_image e"
  by (simp_all add: with_stderr_def)

lemma with_stderr_exec [simp]:
  "returncode (exec (with_stderr g e) cmd fs) = returncode (exec e cmd fs)"
  "stdout (exec (with_stderr g e) cmd fs) = stdout (exec e cmd fs)"
  "files_after (exec (with_stderr g e) cmd fs) = files_after (exec e cmd fs)"
  by (simp_all add: with_stderr_def)

lemma with_stderr_run [simp]: "run (with_stderr g e) cmd w = run e cmd w"
  by (simp add: run_result)

lemma with_stderr_check_output [simp]:
  "check_output (with_stderr g e) cmd w = check_output e cmd w"
  by (simp add: check_output_def spawn_def Let_def)

lemmas case_congs =
  prod.case_cong sum.case_cong option.case_cong node.case_cong if_cong

lemma with_stderr_truediv [simp]: "truediv (with_stderr g e) a b = truediv e a b"
  by (simp add: truediv_def)

lemma with_stderr_os_rename [simp]: "os_rename (with_stderr g e) fs a b = os_rename e fs a b"
  by (simp add: os_rename_def cong: case_congs)

lemma with_stderr_py_float_of [simp]: "py_float_of (with_stderr g e) v = py_float_of e v"
  by (simp add: py_float_of_def split: json.splits)

lemma with_stderr_py_int_of [simp]: "py_int_of (with_stderr g e) v = py_int_of e v"
  by (simp add: py_int_of_def split: json.splits)

lemma with_stderr_optional_float [simp]:
  "optional_float (with_stderr g e) v = optional_float e v"
  by (simp add: optional_float_def split: option.splits json.splits)

lemma with_stderr_crf_of [simp]: "crf_of (with_stderr g e) ji = crf_of e ji"
  by (simp add: crf_of_def split: option.splits)

lemma with_stderr_read_options [simp]: "read_options (with_stderr g e) ji = read_options e ji"
  by (simp add: read_options_def cong: case_congs)

lemma with_stderr_fps_of_pair [simp]:
  "fps_of_pair (with_stderr g e) num den = fps_of_pair e num den"
  by (simp add: fps_of_pair_def cong: case_congs)

lemma with_stderr_imread [simp]: "imread (with_stderr g e) fs p = imread e fs p"
  by (simp add: imread_def cong: case_congs)

lemma with_stderr_imwrite [simp]: "imwrite (with_stderr g e) fs p img = imwrite e fs p img"
  by (simp add: imwrite_def cong: case_congs)

lemma with_stderr_get_video_fps [simp]:
  "get_video_fps (with_stderr g e) path w = get_video_fps e path w"
  by (simp add: get_video_fps_def get_video_fps_try_def cong: case_congs)

lemma with_stderr_out_fps_of [simp]:
  "out_fps_of (with_stderr g e) fps src w = out_fps_of e fps src w"
  by (simp add: out_fps_of_def cong: case_congs)

lemma with_stderr_upscale_loop [simp]:
  "upscale_loop (with_stderr g e) mp sc wd fnames w = upscale_loop e mp sc wd fnames w"
  by (induction fnames arbitrary: w) (simp_all add: Let_def cong: case_congs)

lemma with_stderr_upscale_frames_cuda [simp]:
  "upscale_frames_cuda (with_stderr g e) wd sc m w = upscale_frames_cuda e wd sc m w"
  by (simp add: upscale_frames_cuda_def Let_def cong: case_congs)

lemma with_stderr_run_stages [simp]:
  "run_stages (with_stderr g e) wd sc m fps crf preset w = run_stages e wd sc m fps crf preset w"
  by (simp add: run_stages_def encode_cmd_def Let_def cong: case_congs)

lemma with_stderr_upscale_video [simp]:
  "upscale_video (with_stderr g e) input sc m fps crf preset w
     = upscale_video e input sc m fps crf preset w"
  by (simp add: upscale_video_def work_dir_of_def Let_def cong: case_congs)

lemma with_stderr_process_video [simp]:
  "process_video (with_stderr g e) ji opts path w = process_video e ji opts path w"
  by (simp add: process_video_def model_of_def cong: case_congs)

lemma with_stderr_handler_try [simp]:
  "handler_try (with_stderr g e) ji opts tmp w = handler_try e ji opts tmp w"
  by (simp add: handler_try_def Let_def cong: case_congs)

lemma with_stderr_str [simp]:
  "str_CalledProcessError (with_stderr g e) rc cmd = str_CalledProcessError e rc cmd"
  by (simp add: str_CalledProcessError_def)

lemma with_stderr_except [simp]:
  "handler_except (with_stderr g e) r = handler_except e r"
  by (simp add: handler_except_def split: sum.splits exn.splits)

lemma with_stderr_handler: "handler (with_stderr g e) ji w = handler e ji w"
  by (simp add: handler_def tmp_path_of_def Let_def cong: case_congs)

text \<open>
  Claim C6, amended. When a stage that the handler runs through \<^verbatim>\<open>run\<close> (download,
  extraction, encoding, remux) exits with a non-zero status, the handler raises nothing
  and returns one error result without output. Its message is \<^verbatim>\<open>Upscale failed:\<close>
  followed by the text of the \<^verbatim>\<open>CalledProcessError\<close>, which for a positive status is
  the command line and the status. The result and the world are the same whatever the
  programs printed on their standard error: that text is no part of the message.
\<close>

theorem failed_stage_is_reported:
  assumes "spawned w = []" and "handler e ji w = (r, w')"
    and "(CheckCall, cmd, rc) \<in> set (spawned w')" and "rc \<noteq> 0"
  shows "r = Inr (Failure (''Upscale failed: '' @ str_CalledProcessError e rc cmd))
       \<and> (0 < rc \<longrightarrow>
            r = Inr (Failure (''Upscale failed: Command '' @ [CHR 0x27]
                  @ repr_list cmd @ [CHR 0x27]
                  @ '' returned non-zero exit status '' @ str_int rc @ ''.'')))
       \<and> handler (with_stderr g e) ji w = (r, w')"
proof (intro conjI impI)
  show r: "r = Inr (Failure (''Upscale failed: '' @ str_CalledProcessError e rc cmd))"
    by (rule handler_reports_failure [OF assms])
  show "r = Inr (Failure (''Upscale failed: Command '' @ [CHR 0x27]
                  @ repr_list cmd @ [CHR 0x27]
                  @ '' returned non-zero exit status '' @ str_int rc @ ''.''))"
    if "0 < rc"
    using that by (simp add: r str_CalledProcessError_def)
  show "handler (with_stderr g e) ji w = (r, w')"
    by (simp only: with_stderr_handler assms(2))
qed

text \<open>
  A download that \<^verbatim>\<open>curl\<close> refuses with status 22: the message names the command and
  the status, and the same request gets the same answer when the programs print another
  text.
\<close>

theorem failed_stage_is_reported_witness:
  "spawned empty_world = []
   \<and> (CheckCall, [''curl'', ''-L'', ''-s'', ''-S'', ''https://host.example/missing.mp4'',
                   ''-o'', ''/tmp/input_0123abcd.mp4''], 22)
       \<in> set (spawned (snd (handler (sample_env sample_exec)
               (request (Some ''https://host.example/missing.mp4'') None) empty_world)))
   \<and> fst (handler (sample_env sample_exec)
          (request (Some ''https://host.example/missing.mp4'') None) empty_world)
       = Inr (Failure (''Upscale failed: Command '['curl', '-L', '-s', '-S', 'https://host''
            @ ''.example/missing.mp4', '-o', '/tmp/input_0123abcd.mp4']' returned''
            @ '' non-zero exit status 22.''))
   \<and> handler (with_stderr (\<lambda>cmd fs. ''no text at all'') (sample_env sample_exec))
          (request (Some ''https://host.example/missing.mp4'') None) empty_world
       = handler (sample_env sample_exec)
          (request (Some ''https://host.example/missing.mp4'') None) empty_world"
proof -
  let ?e = "sample_env sample_exec"
  let ?ji = "request (Some ''https://host.example/missing.mp4'') None"
  let ?cmd = "[''curl'', ''-L'', ''-s'', ''-S'', ''https://host.example/missing.mp4'',
               ''-o'', ''/tmp/input_0123abcd.mp4'']"
  let ?h = "handler ?e ?ji empty_world"
  let ?msg = "''Upscale failed: Command '['curl', '-L', '-s', '-S', 'https://host''
            @ ''.example/missing.mp4', '-o', '/tmp/input_0123abcd.mp4']' returned''
            @ '' non-zero exit status 22.''"
  have a: "spawned empty_world = []"
    by (simp add: empty_world_def)
  have b: "?h = (fst ?h, snd ?h)"
    by simp
  have c: "(CheckCall, ?cmd, 22) \<in> set (spawned (snd ?h))"
    by (simp add: model_defs sample_defs Let_def)
  have d: "(22 :: int) \<noteq> 0" "(0 :: int) < 22"
    by simp_all
  note t = failed_stage_is_reported [OF a b c d(1), of "\<lambda>cmd fs. ''no text at all''"]
  have m: "''Upscale failed: Command '' @ [CHR 0x27] @ repr_list ?cmd @ [CHR 0x27]
        @ '' returned non-zero exit status '' @ str_int 22 @ ''.'' = ?msg"
    by (simp add: repr_list_def repr_str_def repr_char_def str_int_values Let_def)
  from t d(2) have "fst ?h = Inr (Failure (''Upscale failed: Command '' @ [CHR 0x27]
        @ repr_list ?cmd @ [CHR 0x27] @ '' returned non-zero exit status ''
        @ str_int 22 @ ''.''))"
    by blast
  then have f: "fst ?h = Inr (Failure ?msg)"
    by (simp only: m)
  from t have "handler (with_stderr (\<lambda>cmd fs. ''no text at all'') ?e) ?ji empty_world
      = (fst ?h, snd ?h)"
    by blast
  then have g: "handler (with_stderr (\<lambda>cmd fs. ''no text at all'') ?e) ?ji empty_world = ?h"
    by simp
  from a c f g show ?thesis by blast
qed

text \<open>
  Claim C6, as stated, fails on that download: \<^verbatim>\<open>curl\<close> exits with status 22 and
  prints its error text, and the message of the result does not contain that text.
\<close>

theorem error_text_counterexample:
  "returncode (download (sample_env sample_exec)
       (request (Some ''https://host.example/missing.mp4'') None) empty_world) = 22
   \<and> stderr (download (sample_env sample_exec)
       (request (Some ''https://host.example/missing.mp4'') None) empty_world)
     = ''curl: (22) The requested URL returned error: 404''
   \<and> fst (handler (sample_env sample_exec)
          (request (Some ''https://host.example/missing.mp4'') None) empty_world)
       = Inr (Failure (''Upscale failed: Command '['curl', '-L', '-s', '-S', 'https://host''
            @ ''.example/missing.mp4', '-o', '/tmp/input_0123abcd.mp4']' returned''
            @ '' non-zero exit status 22.''))
   \<and> \<not> contains (''Upscale failed: Command '['curl', '-L', '-s', '-S', 'https://host''
            @ ''.example/missing.mp4', '-o', '/tmp/input_0123abcd.mp4']' returned''
            @ '' non-zero exit status 22.'')
         ''curl: (22) The requested URL returned error: 404''"
  by (simp add: model_defs sample_defs Let_def download_def str_CalledProcessError_def
      repr_list_def repr_str_def repr_char_def str_int_values contains_def)

subsection \<open>The working directory\<close>

lemma keeps_directoriesD:
  "keeps_directories e \<Longrightarrow> map_of fs p = Some Dir \<Longrightarrow>
   map_of (files_after (exec e cmd fs)) p = Some Dir"
  by (simp add: keeps_directories_def)

lemma run_dir:
  assumes "keeps_directories e" "run e cmd w = (r, w1)" "map_of (files w) p = Some Dir"
  shows "map_of (files w1) p = Some Dir"
  using assms(2) keeps_directoriesD [OF assms(1,3), of cmd]
  by (auto simp: run_result)

lemma check_output_dir:
  assumes "keeps_directories e" "check_output e cmd w = (r, w1)" "map_of (files w) p = Some Dir"
  shows "map_of (files w1) p = Some Dir"
  using assms(2) keeps_directoriesD [OF assms(1,3), of cmd]
  by (auto simp: check_output_def spawn_def Let_def split: if_splits)

lemma get_video_fps_dir:
  assumes "keeps_directories e" "get_video_fps e path w = (r, w1)"
    "map_of (files w) p = Some Dir"
  shows "map_of (files w1) p = Some Dir"
proof -
  obtain r0 w0 where c: "check_output e (fps_cmd path) w = (r0, w0)"
    by (cases "check_output e (fps_cmd path) w")
  with assms(2) have "w1 = w0"
    by (auto simp: get_video_fps_def get_video_fps_try_def split: sum.splits prod.splits)
  with check_output_dir [OF assms(1) c assms(3)] show ?thesis by simp
qed

lemma out_fps_of_dir:
  assumes "keeps_directories e" "out_fps_of e fps src w = (r, w1)"
    "map_of (files w) p = Some Dir"
  shows "map_of (files w1) p = Some Dir"
  using assms get_video_fps_dir [of e src w r w1 p]
  by (auto simp: out_fps_of_def split: option.splits if_splits)

lemma upscale_loop_dir_any:
  "upscale_loop e mp sc wd fnames w = (r, w1) \<Longrightarrow> map_of (files w) p = Some Dir \<Longrightarrow>
   map_of (files w1) p = Some Dir"
proof (induction fnames arbitrary: w)
  case Nil
  then show ?case by simp
next
  case (Cons f fnames)
  show ?case
  proof (cases "enhance e mp (imread e (files w) (path_join wd f)) sc")
    case (Inl x)
    with Cons.prems show ?thesis by (simp add: Let_def)
  next
    case (Inr img)
    let ?w = "w\<lparr>files := imwrite e (files w) (path_join wd (out_name f)) img\<rparr>"
    from Inr Cons.prems(1) have "upscale_loop e mp sc wd fnames ?w = (r, w1)"
      by (simp add: Let_def)
    moreover from Cons.prems(2) have "map_of (files ?w) p = Some Dir"
      by (simp add: imwrite_dir)
    ultimately show ?thesis by (rule Cons.IH)
  qed
qed

lemma upscale_frames_cuda_dir:
  "upscale_frames_cuda e wd sc m w = (r, w1) \<Longrightarrow> map_of (files w) p = Some Dir \<Longrightarrow>
   map_of (files w1) p = Some Dir"
  by (auto simp: upscale_frames_cuda_def Let_def split: option.splits sum.splits
      dest: upscale_loop_dir_any)

lemma run_stages_dir:
  assumes k: "keeps_directories e"
    and s: "run_stages e wd sc m fps crf preset w = (r, w')"
    and d: "map_of (files w) p = Some Dir"
  shows "map_of (files w') p = Some Dir"
proof -
  let ?src = "path_join wd ''src.mp4''"
  let ?c1 = "extract_cmd ?src (path_join wd ''frame_%08d.png'')"
  let ?c3 = "encode_cmd e fps (path_join wd ''frames_upscaled_%08d.png'') crf preset
      (path_join wd ''upscaled_noaudio.mp4'')"
  let ?c4 = "remux_cmd (path_join wd ''upscaled_noaudio.mp4'') ?src
      (path_join wd ''upscaled_with_audio.mp4'')"
  obtain r1 w1 where s1: "run e ?c1 w = (r1, w1)" by (cases "run e ?c1 w")
  note d1 = run_dir [OF k s1 d]
  show ?thesis
  proof (cases r1)
    case (Inl x)
    with s s1 have "w' = w1" by (simp add: run_stages_def Let_def)
    with d1 show ?thesis by simp
  next
    case Inr1: (Inr u1)
    obtain r2 w2 where s2: "upscale_frames_cuda e wd sc m w1 = (r2, w2)"
      by (cases "upscale_frames_cuda e wd sc m w1")
    note d2 = upscale_frames_cuda_dir [OF s2 d1]
    show ?thesis
    proof (cases r2)
      case (Inl x)
      with s s1 s2 Inr1 have "w' = w2" by (simp add: run_stages_def Let_def)
      with d2 show ?thesis by simp
    next
      case Inr2: (Inr u2)
      obtain r3 w3 where s3: "run e ?c3 w2 = (r3, w3)" by (cases "run e ?c3 w2")
      note d3 = run_dir [OF k s3 d2]
      show ?thesis
      proof (cases r3)
        case (Inl x)
        with s s1 s2 s3 Inr1 Inr2 have "w' = w3" by (simp add: run_stages_def Let_def)
        with d3 show ?thesis by simp
      next
        case Inr3: (Inr u3)
        obtain r4 w4 where s4: "run e ?c4 w3 = (r4, w4)" by (cases "run e ?c4 w3")
        note d4 = run_dir [OF k s4 d3]
        from s s1 s2 s3 s4 Inr1 Inr2 Inr3 have "w' = w4"
          by (simp add: run_stages_def Let_def split: sum.splits)
        with d4 show ?thesis by simp
      qed
    qed
  qed
qed

lemma makedirs_dir:
  "makedirs fs p = Inr fs1 \<Longrightarrow> map_of fs1 p = Some Dir"
  by (auto simp: makedirs_def AList.update_conv' split: option.splits node.splits)

lemma makedirs_keeps:
  "makedirs fs p = Inr fs1 \<Longrightarrow> map_of fs q = Some Dir \<Longrightarrow> map_of fs1 q = Some Dir"
  by (auto simp: makedirs_def AList.update_conv' split: option.splits node.splits)

lemma os_rename_keeps:
  "os_rename e fs a b = Inr fs2 \<Longrightarrow> map_of fs q = Some Dir \<Longrightarrow> map_of fs2 q = Some Dir"
  by (auto simp: os_rename_def AList.update_conv' AList.delete_conv'
      split: option.splits node.splits if_splits)

lemma handler_finally_dir:
  "map_of (files w) q = Some Dir \<Longrightarrow> map_of (files (handler_finally ji tmp w)) q = Some Dir"
  by (auto simp: handler_finally_files isfile_def AList.delete_conv'
      split: option.splits node.splits)

text \<open>
  After \<^verbatim>\<open>upscale_video\<close> the working directory is there, unless the function raised
  before it spawned anything.
\<close>

lemma upscale_video_dir:
  assumes k: "keeps_directories e"
    and s: "upscale_video e input sc m fps crf preset w = (r, w')"
  shows "map_of (files w') (work_dir_of e) = Some Dir
       \<or> ((\<exists>x. r = Inl x) \<and> spawned w' = spawned w)"
proof -
  let ?wd = "work_dir_of e"
  let ?src = "path_join ?wd ''src.mp4''"
  show ?thesis
  proof (cases "makedirs (files w) ?wd")
    case (Inl x)
    with s have "r = Inl x" "w' = w" by (simp_all add: upscale_video_def Let_def)
    then show ?thesis by simp
  next
    case (Inr fs1)
    note d1 = makedirs_dir [OF Inr]
    show ?thesis
    proof (cases "if input \<noteq> ?src then os_rename e fs1 input ?src else Inr fs1")
      case (Inl x)
      with s Inr have "w' = w\<lparr>files := fs1\<rparr>"
        by (simp add: upscale_video_def Let_def)
      with d1 show ?thesis by simp
    next
      case Inr2: (Inr fs2)
      with d1 have d2: "map_of fs2 ?wd = Some Dir"
        by (auto split: if_splits dest: os_rename_keeps)
      obtain r3 w3 where s3: "out_fps_of e fps ?src (w\<lparr>files := fs2\<rparr>) = (r3, w3)"
        by (cases "out_fps_of e fps ?src (w\<lparr>files := fs2\<rparr>)")
      from d2 have "map_of (files (w\<lparr>files := fs2\<rparr>)) ?wd = Some Dir" by simp
      note d3 = out_fps_of_dir [OF k s3 this]
      from out_fps_of_tracked(2) [OF s3] obtain v where v: "r3 = Inr v" by blast
      from s Inr Inr2 s3 v have "run_stages e ?wd sc m v crf preset w3 = (r, w')"
        by (simp add: upscale_video_def Let_def)
      from run_stages_dir [OF k this d3] show ?thesis by simp
    qed
  qed
qed

lemma process_video_dir:
  assumes k: "keeps_directories e"
    and s: "process_video e ji opts path w = (r, w')"
  shows "map_of (files w') (work_dir_of e) = Some Dir
       \<or> ((\<exists>x. r = Inl x) \<and> spawned w' = spawned w)"
proof (cases "resolve_scale (opt_scale opts) (input_target_resolution ji)")
  case (Inl x)
  with s have "r = Inl x" "w' = w" by (simp_all add: process_video_def)
  then show ?thesis by simp
next
  case (Inr sc)
  obtain r1 w1 where s1: "upscale_video e path sc (model_of e ji) (opt_output_fps opts)
      (opt_crf opts) (preset_of ji) w = (r1, w1)"
    by (cases "upscale_video e path sc (model_of e ji) (opt_output_fps opts)
      (opt_crf opts) (preset_of ji) w")
  from s Inr s1 have w': "w' = w1"
    by (auto simp: process_video_def split: sum.splits)
  from s Inr s1 have "(\<exists>x. r1 = Inl x) \<Longrightarrow> (\<exists>x. r = Inl x)"
    by (auto simp: process_video_def split: sum.splits)
  with upscale_video_dir [OF k s1] w' show ?thesis by blast
qed

lemma stage_is_no_download: "extract_cmd src pat \<noteq> curl_cmd url tmp"
  by (simp add: extract_cmd_def curl_cmd_def)

lemma handler_try_dir:
  assumes k: "keeps_directories e"
    and s: "handler_try e ji opts tmp w = (r, w')"
  shows "map_of (files w') (work_dir_of e) = Some Dir
       \<or> ((\<forall>b p. r \<noteq> Inr (Success b p))
          \<and> (spawned w' = spawned w
             \<or> (\<exists>rc. spawned w' = spawned w
                  @ [(CheckCall, curl_cmd (or_else (input_video_url ji) []) tmp, rc)])))"
proof (cases "truthy (input_video_url ji)")
  case True
  let ?cmd = "curl_cmd (or_else (input_video_url ji) []) tmp"
  obtain r1 w1 where s1: "run e ?cmd w = (r1, w1)" by (cases "run e ?cmd w")
  then have sp: "\<exists>rc. spawned w1 = spawned w @ [(CheckCall, ?cmd, rc)]"
    by (auto simp: run_result)
  show ?thesis
  proof (cases r1)
    case (Inl x)
    with s True s1 have "r = Inl x" "w' = w1"
      by (simp_all add: handler_try_def)
    with sp show ?thesis by simp
  next
    case (Inr u)
    show ?thesis
    proof (cases "missing_or_empty (files w1) tmp")
      case True
      with s \<open>truthy (input_video_url ji)\<close> s1 Inr
      have "r = Inr (Failure ''Download failed or empty file.'')" "w' = w1"
        by (simp_all add: handler_try_def)
      with sp show ?thesis by simp
    next
      case False
      with s \<open>truthy (input_video_url ji)\<close> s1 Inr
      have "process_video e ji opts tmp w1 = (r, w')"
        by (simp add: handler_try_def)
      from process_video_dir [OF k this] sp show ?thesis by auto
    qed
  qed
next
  case False
  show ?thesis
  proof (cases "isfile (files w) (or_else (input_file_path ji) [])")
    case True
    with s False have "process_video e ji opts (or_else (input_file_path ji) []) w = (r, w')"
      by (simp add: handler_try_def Let_def)
    from process_video_dir [OF k this] show ?thesis by auto
  next
    case isf: False
    with s False have "w' = w" "r = Inr (Failure (''File not found: ''
        @ or_else (input_file_path ji) []))"
      by (simp_all add: handler_try_def Let_def)
    then show ?thesis by simp
  qed
qed

lemma handler_except_Success:
  "handler_except e r0 = Inr (Success b p) \<Longrightarrow> r0 = Inr (Success b p)"
  by (auto simp: handler_except_def split: sum.splits exn.splits)

text \<open>
  Claim C4, amended. The working directory is not deleted at the end of a job. When the
  job has succeeded, and when it has failed after its extraction stage was started, the
  directory \<^verbatim>\<open>/tmp/<job_id>\<close> is still there as the handler returns, provided the
  external programs themselves remove no directory.
\<close>

theorem work_dir_is_left:
  assumes "keeps_directories e" and "spawned w = []" and "handler e ji w = (r, w')"
    and "(\<exists>b p. r = Inr (Success b p))
       \<or> (\<exists>rc. (CheckCall, extract_cmd (path_join (work_dir_of e) ''src.mp4'')
                    (path_join (work_dir_of e) ''frame_%08d.png''), rc) \<in> set (spawned w'))"
  shows "map_of (files w') (work_dir_of e) = Some Dir"
proof -
  have "\<exists>opts. read_options e ji = Inr opts"
  proof (cases "read_options e ji")
    case (Inl x)
    with assms(3) have "w' = w" "r = Inl x"
      by (simp_all add: handler_def)
    with assms(2,4) show ?thesis by simp
  next
    case (Inr opts)
    then show ?thesis by simp
  qed
  then obtain opts where o: "read_options e ji = Inr opts" ..
  have src: "truthy (input_video_url ji) \<or> truthy (input_file_path ji)"
  proof (rule ccontr)
    assume "\<not> ?thesis"
    with assms(3) o have "w' = w"
      "r = Inr (Failure ''Provide either 'video_url' or 'file_path' in input.'')"
      by (simp_all add: handler_def)
    with assms(2,4) show False by simp
  qed
  obtain r0 w0 where t: "handler_try e ji opts (tmp_path_of e) w = (r0, w0)"
    by (cases "handler_try e ji opts (tmp_path_of e) w")
  with assms(3) o src have r: "r = handler_except e r0"
    and w': "w' = handler_finally ji (tmp_path_of e) w0"
    by (simp_all add: handler_def Let_def)
  from w' have sp: "spawned w' = spawned w0"
    by (simp add: handler_finally_spawned)
  have "map_of (files w0) (work_dir_of e) = Some Dir"
  proof (rule ccontr)
    assume "\<not> ?thesis"
    with handler_try_dir [OF assms(1) t]
    have ns: "\<forall>b p. r0 \<noteq> Inr (Success b p)"
      and log: "spawned w0 = spawned w
        \<or> (\<exists>rc. spawned w0 = spawned w
              @ [(CheckCall, curl_cmd (or_else (input_video_url ji) []) (tmp_path_of e), rc)])"
      by blast+
    from ns r have "\<forall>b p. r \<noteq> Inr (Success b p)"
      by (auto dest: handler_except_Success)
    with assms(4) obtain rc where "(CheckCall, extract_cmd (path_join (work_dir_of e) ''src.mp4'')
        (path_join (work_dir_of e) ''frame_%08d.png''), rc) \<in> set (spawned w')"
      by blast
    with sp log assms(2) show False
      by (auto simp: stage_is_no_download)
  qed
  with w' show ?thesis
    by (simp add: handler_finally_dir)
qed

lemma write_file_dir:
  "map_of (write_file p c fs) q = Some Dir \<longleftrightarrow> map_of fs q = Some Dir"
  by (auto simp: write_file_def AList.update_conv' split: option.splits node.splits if_splits)

lemma sample_keeps_directories: "keeps_directories (sample_env sample_exec)"
  by (simp add: keeps_directories_def sample_env_def sample_exec_def sample_curl_def
      sample_ffmpeg_def finished_def Let_def write_file_dir)

text \<open>
  The two sample jobs of the counterexample: the one that succeeds, and the one that
  fails at the extraction. After both, \<^verbatim>\<open>/tmp/job-1\<close> is a directory.
\<close>

theorem work_dir_is_left_witness:
  "keeps_directories (sample_env sample_exec)
   \<and> spawned empty_world = []
   \<and> fst (handler (sample_env sample_exec) (request (Some ''https://host.example/a.mp4'') None)
          empty_world)
       = Inr (Success ''base64:movie''
           \<lparr>param_scale = Fin (3 / 2), param_model = ''realesr-animevideov3'',
            param_target_resolution = None, param_crf = 20,
            param_preset = ''medium'', param_output_fps = None\<rparr>)
   \<and> map_of (files (snd (handler (sample_env sample_exec)
          (request (Some ''https://host.example/a.mp4'') None) empty_world))) ''/tmp/job-1''
       = Some Dir
   \<and> (CheckCall, [''ffmpeg'', ''-y'', ''-i'', ''/tmp/job-1/src.mp4'', ''-q:v'', ''1'',
                   ''/tmp/job-1/frame_%08d.png''], 1)
       \<in> set (spawned (snd (handler (sample_env sample_exec)
               (request (Some ''https://host.example/text.mp4'') None) empty_world)))
   \<and> map_of (files (snd (handler (sample_env sample_exec)
          (request (Some ''https://host.example/text.mp4'') None) empty_world))) ''/tmp/job-1''
       = Some Dir"
proof -
  let ?e = "sample_env sample_exec"
  let ?a = "request (Some ''https://host.example/a.mp4'') None"
  let ?t = "request (Some ''https://host.example/text.mp4'') None"
  let ?ha = "handler ?e ?a empty_world"
  let ?ht = "handler ?e ?t empty_world"
  let ?x = "[''ffmpeg'', ''-y'', ''-i'', ''/tmp/job-1/src.mp4'', ''-q:v'', ''1'',
             ''/tmp/job-1/frame_%08d.png'']"
  have k: "keeps_directories ?e"
    by (rule sample_keeps_directories)
  have n: "spawned empty_world = []"
    by (simp add: empty_world_def)
  have wd: "work_dir_of ?e = ''/tmp/job-1''"
    by (simp add: work_dir_of_def sample_env_def)
  have x: "extract_cmd (path_join (work_dir_of ?e) ''src.mp4'')
      (path_join (work_dir_of ?e) ''frame_%08d.png'') = ?x"
    by (simp add: wd extract_cmd_def path_join_def startswith_def endswith_def suffix_to_prefix)
  have sa: "fst ?ha = Inr (Success ''base64:movie''
           \<lparr>param_scale = Fin (3 / 2), param_model = ''realesr-animevideov3'',
            param_target_resolution = None, param_crf = 20,
            param_preset = ''medium'', param_output_fps = None\<rparr>)"
    by (simp add: model_defs sample_defs str_int_values Let_def)
  have st: "(CheckCall, ?x, 1) \<in> set (spawned (snd ?ht))"
    by (simp add: model_defs sample_defs str_int_values Let_def)
  have pa: "?ha = (fst ?ha, snd ?ha)" and pt: "?ht = (fst ?ht, snd ?ht)"
    by simp_all
  from sa have ha: "(\<exists>b p. fst ?ha = Inr (Success b p))
      \<or> (\<exists>rc. (CheckCall, extract_cmd (path_join (work_dir_of ?e) ''src.mp4'')
            (path_join (work_dir_of ?e) ''frame_%08d.png''), rc) \<in> set (spawned (snd ?ha)))"
    by simp
  from st have ht: "(\<exists>b p. fst ?ht = Inr (Success b p))
      \<or> (\<exists>rc. (CheckCall, extract_cmd (path_join (work_dir_of ?e) ''src.mp4'')
            (path_join (work_dir_of ?e) ''frame_%08d.png''), rc) \<in> set (spawned (snd ?ht)))"
    unfolding x by blast
  from work_dir_is_left [OF k n pa ha]
  have da: "map_of (files (snd ?ha)) ''/tmp/job-1'' = Some Dir"
    unfolding wd .
  from work_dir_is_left [OF k n pt ht]
  have dt: "map_of (files (snd ?ht)) ''/tmp/job-1'' = Some Dir"
    unfolding wd .
  from k n sa da st dt show ?thesis by blast
qed

end
